theory Spec2Isabelle
  imports Complex_Main "HOL-Library.AList"
begin

section \<open>Values and exceptions\<close>

text \<open>
  Values produced by \<^verbatim>\<open>json.load\<close>. An object is an association list whose keys are
  distinct after parsing; a finite float is represented by the real number it denotes.
\<close>

datatype json =
    JNull
  | JBool bool
  | JInt int
  | JFloat real
  | JStr string
  | JArr "json list"
  | JObj "(string \<times> json) list"

text \<open>
  The exceptions (subclasses of \<^verbatim>\<open>Exception\<close>) that the program raises or lets through.
  \<open>ValueError_offset v\<close> is the \<^verbatim>\<open>ValueError\<close> raised by \<^verbatim>\<open>get_location_data\<close>, whose
  message quotes the offending value \<open>v\<close>; \<open>ValueError\<close> is the one raised by a builtin.
  \<open>MariadbError\<close> stands for \<^verbatim>\<open>mariadb.Error\<close> and its subclasses.
\<close>

datatype exn =
    AttributeError
  | TypeError
  | ValueError
  | ValueError_offset json
  | KeyError string
  | FileNotFoundError string
  | JSONDecodeError
  | MariadbError string
  | USBError string
  | OtherError string

section \<open>module/temper\_reader.py\<close>

subsection \<open>Device handles\<close>

text \<open>
  The USB descriptor behind \<^verbatim>\<open>device._device\<close>. Each field holds what reading it yields:
  a value or the exception raised. The three string fields are the results of
  \<^verbatim>\<open>usb.util.get_string(device._device, device._device.iManufacturer)\<close> and its siblings,
  which return a string or \<^verbatim>\<open>None\<close>.
\<close>

record descriptor =
  idVendor :: "exn + int"
  idProduct :: "exn + int"
  manufacturer_string :: "exn + string option"
  product_string :: "exn + string option"
  serial_string :: "exn + string option"

text \<open>
  A device handle as returned by \<^verbatim>\<open>TemperHandler().get_devices()\<close>: \<open>dev_descriptor\<close> is
  \<open>None\<close> when the handle has no \<^verbatim>\<open>_device\<close> attribute, and \<open>get_temperature\<close> is the
  outcome of \<^verbatim>\<open>device.get_temperature()\<close>.
\<close>

record device =
  dev_descriptor :: "descriptor option"
  get_temperature :: "exn + real"

text \<open>A metadata dictionary: keys to values, where the value \<open>None\<close> is Python's \<^verbatim>\<open>None\<close>.\<close>

type_synonym metadata_dict = "string \<rightharpoonup> string option"

subsection \<open>The builtin \<^verbatim>\<open>hex\<close>\<close>

definition hex_digit :: "nat \<Rightarrow> char" where
  "hex_digit d = ''0123456789abcdef'' ! (d mod 16)"

function hex_nat :: "nat \<Rightarrow> string" where
  "hex_nat n = (if n < 16 then [hex_digit n] else hex_nat (n div 16) @ [hex_digit (n mod 16)])"
  by pat_completeness auto
termination
  by (relation "measure id") auto

declare hex_nat.simps [simp del]

definition py_hex :: "int \<Rightarrow> string" where
  "py_hex i = (if i < 0 then ''-0x'' @ hex_nat (nat (- i)) else ''0x'' @ hex_nat (nat i))"

subsection \<open>get\_device\_metadata\<close>

text \<open>The dictionary assigned in the \<^verbatim>\<open>except AttributeError\<close> branch.\<close>

definition absent_descriptor_metadata :: metadata_dict where
  "absent_descriptor_metadata =
     [''vendor_id'' \<mapsto> None, ''product_id'' \<mapsto> None, ''manufacturer'' \<mapsto> None,
      ''product'' \<mapsto> None, ''serial_number'' \<mapsto> Some ''Desconocido'']"

text \<open>
  The outer handler: an \<^verbatim>\<open>AttributeError\<close> is caught and replaces the dictionary, any other
  exception leaves the function.
\<close>

definition outer_handler :: "exn \<Rightarrow> exn + metadata_dict" where
  "outer_handler e = (if e = AttributeError then Inr absent_descriptor_metadata else Inl e)"

text \<open>Python's truth value of a string-or-\<^verbatim>\<open>None\<close>.\<close>

definition truthy :: "string option \<Rightarrow> bool" where
  "truthy s = (case s of None \<Rightarrow> False | Some cs \<Rightarrow> cs \<noteq> [])"

text \<open>The three inner \<^verbatim>\<open>try\<close> blocks, each with a bare \<^verbatim>\<open>except\<close>.\<close>

definition read_manufacturer :: "descriptor \<Rightarrow> string option" where
  "read_manufacturer dsc = (case manufacturer_string dsc of Inl _ \<Rightarrow> None | Inr s \<Rightarrow> s)"

definition read_product :: "descriptor \<Rightarrow> string option" where
  "read_product dsc = (case product_string dsc of Inl _ \<Rightarrow> None | Inr s \<Rightarrow> s)"

definition read_serial :: "descriptor \<Rightarrow> string option" where
  "read_serial dsc =
     (case serial_string dsc of
        Inl _ \<Rightarrow> Some ''Desconocido''
      | Inr serial \<Rightarrow> (if truthy serial then serial else Some ''Desconocido''))"

definition get_device_metadata :: "device \<Rightarrow> exn + metadata_dict" where
  "get_device_metadata dev =
     (case dev_descriptor dev of
        None \<Rightarrow> outer_handler AttributeError
      | Some dsc \<Rightarrow>
          (case idVendor dsc of
             Inl e \<Rightarrow> outer_handler e
           | Inr vid \<Rightarrow>
               (case idProduct dsc of
                  Inl e \<Rightarrow> outer_handler e
                | Inr pid \<Rightarrow>
                    Inr [''vendor_id'' \<mapsto> Some (py_hex vid),
                         ''product_id'' \<mapsto> Some (py_hex pid),
                         ''manufacturer'' \<mapsto> read_manufacturer dsc,
                         ''product'' \<mapsto> read_product dsc,
                         ''serial_number'' \<mapsto> read_serial dsc])))"

subsection \<open>get\_medicion\<close>

record reading =
  metadata :: metadata_dict
  temperature_c :: real

text \<open>What the acquisition does to the device layer, in order.\<close>

datatype sensor_io = Enumerate_devices | Read_descriptor | Read_temperature

text \<open>
  The \<^verbatim>\<open>for device in devices\<close> loop with its accumulator \<^verbatim>\<open>output\<close>. The dictionary literal
  evaluates \<^verbatim>\<open>get_device_metadata(device)\<close> before \<^verbatim>\<open>device.get_temperature()\<close>; an
  exception of either leaves the loop and the function.
\<close>

fun medicion_loop ::
  "real \<Rightarrow> device list \<Rightarrow> reading list \<Rightarrow> sensor_io list \<Rightarrow> sensor_io list \<times> (exn + reading list)"
where
  "medicion_loop offset_celsius [] output io = (io, Inr output)"
| "medicion_loop offset_celsius (dev # devs) output io =
     (case get_device_metadata dev of
        Inl e \<Rightarrow> (io @ [Read_descriptor], Inl e)
      | Inr md \<Rightarrow>
          (case get_temperature dev of
             Inl e \<Rightarrow> (io @ [Read_descriptor, Read_temperature], Inl e)
           | Inr t \<Rightarrow>
               medicion_loop offset_celsius devs
                 (output @ [\<lparr>metadata = md, temperature_c = t + offset_celsius\<rparr>])
                 (io @ [Read_descriptor, Read_temperature])))"

text \<open>
  \<open>enumerated\<close> is the outcome of \<^verbatim>\<open>TemperHandler().get_devices()\<close>: the devices in
  enumeration order, or the exception of the device layer.
\<close>

definition get_medicion ::
  "real \<Rightarrow> exn + device list \<Rightarrow> sensor_io list \<times> (exn + reading list)"
where
  "get_medicion offset_celsius enumerated =
     (case enumerated of
        Inl e \<Rightarrow> ([Enumerate_devices], Inl e)
      | Inr devices \<Rightarrow> medicion_loop offset_celsius devices [] [Enumerate_devices])"

section \<open>module/location\_info.py\<close>

text \<open>
  A file as the program finds it: absent, present but failing to open or to parse
  (with the exception raised), or parsed into a value.
\<close>

datatype file_state = No_file | Read_fails exn | Parsed json

fun starts_with :: "string \<Rightarrow> string \<Rightarrow> bool" where
  "starts_with [] s = True"
| "starts_with (c # cs) [] = False"
| "starts_with (c # cs) (d # ds) = (c = d \<and> starts_with cs ds)"

fun is_substring :: "string \<Rightarrow> string \<Rightarrow> bool" where
  "is_substring p [] = (p = [])"
| "is_substring p (c # cs) = (starts_with p (c # cs) \<or> is_substring p cs)"

text \<open>
  \<^verbatim>\<open>key in data\<close> for a string key: membership among the keys of an object, among the
  elements of an array, substring test on a string, \<^verbatim>\<open>TypeError\<close> otherwise.
\<close>

definition py_contains :: "json \<Rightarrow> string \<Rightarrow> exn + bool" where
  "py_contains data key =
     (case data of
        JObj kvs \<Rightarrow> Inr (key \<in> set (map fst kvs))
      | JArr xs \<Rightarrow> Inr (JStr key \<in> set xs)
      | JStr s \<Rightarrow> Inr (is_substring key s)
      | _ \<Rightarrow> Inl TypeError)"

text \<open>\<^verbatim>\<open>data[key]\<close> for a string key.\<close>

definition py_getitem :: "json \<Rightarrow> string \<Rightarrow> exn + json" where
  "py_getitem data key =
     (case data of
        JObj kvs \<Rightarrow> (case map_of kvs key of None \<Rightarrow> Inl (KeyError key) | Some v \<Rightarrow> Inr v)
      | _ \<Rightarrow> Inl TypeError)"

text \<open>\<^verbatim>\<open>data[key] = v\<close> for a string key.\<close>

definition py_setitem :: "json \<Rightarrow> string \<Rightarrow> json \<Rightarrow> exn + json" where
  "py_setitem data key v =
     (case data of
        JObj kvs \<Rightarrow> Inr (JObj (AList.update key v kvs))
      | _ \<Rightarrow> Inl TypeError)"

definition required_keys :: "string list" where
  "required_keys = [''ubicacion'', ''cpd'', ''sala'', ''offset_celsius'']"

text \<open>The message \<^verbatim>\<open>f"Falta la clave '{key}' en {full_path}"\<close>.\<close>

definition missing_key_message :: "string \<Rightarrow> string \<Rightarrow> string" where
  "missing_key_message key full_path =
     ''Falta la clave '' @ [CHR 0x27] @ key @ [CHR 0x27] @ '' en '' @ full_path"

text \<open>The loop over \<^verbatim>\<open>required_keys\<close>: the exception it raises, if any.\<close>

fun check_required :: "string \<Rightarrow> json \<Rightarrow> string list \<Rightarrow> exn option" where
  "check_required full_path data [] = None"
| "check_required full_path data (key # keys) =
     (case py_contains data key of
        Inl e \<Rightarrow> Some e
      | Inr False \<Rightarrow> Some (KeyError (missing_key_message key full_path))
      | Inr True \<Rightarrow> check_required full_path data keys)"

definition is_type_or_value_error :: "exn \<Rightarrow> bool" where
  "is_type_or_value_error e =
     (case e of TypeError \<Rightarrow> True | ValueError \<Rightarrow> True | ValueError_offset _ \<Rightarrow> True | _ \<Rightarrow> False)"

text \<open>
  The handler \<^verbatim>\<open>except (TypeError, ValueError)\<close>: it formats \<^verbatim>\<open>data['offset_celsius']\<close> into
  the message of a new \<^verbatim>\<open>ValueError\<close>, and that lookup can raise in its turn. Any other
  exception passes through.
\<close>

definition offset_handler :: "json \<Rightarrow> exn \<Rightarrow> exn" where
  "offset_handler data e =
     (if is_type_or_value_error e
      then (case py_getitem data ''offset_celsius'' of Inl e' \<Rightarrow> e' | Inr v \<Rightarrow> ValueError_offset v)
      else e)"

text \<open>
  \<open>py_float\<close> is the builtin \<^verbatim>\<open>float\<close> on a parsed value, \<open>full_path\<close> the absolute path
  of the configuration file and \<open>file\<close> what is found there.
\<close>

definition get_location_data ::
  "(json \<Rightarrow> exn + real) \<Rightarrow> string \<Rightarrow> file_state \<Rightarrow> exn + json"
where
  "get_location_data py_float full_path file =
     (case file of
        No_file \<Rightarrow> Inl (FileNotFoundError full_path)
      | Read_fails e \<Rightarrow> Inl e
      | Parsed data \<Rightarrow>
          (case check_required full_path data required_keys of
             Some e \<Rightarrow> Inl e
           | None \<Rightarrow>
               (case py_getitem data ''offset_celsius'' of
                  Inl e \<Rightarrow> Inl (offset_handler data e)
                | Inr v \<Rightarrow>
                    (case py_float v of
                       Inl e \<Rightarrow> Inl (offset_handler data e)
                     | Inr r \<Rightarrow>
                         (case py_setitem data ''offset_celsius'' (JFloat r) of
                            Inl e \<Rightarrow> Inl (offset_handler data e)
                          | Inr data' \<Rightarrow> Inr data')))))"

section \<open>module/system\_info.py\<close>

text \<open>
  What the operating system answers: \<^verbatim>\<open>socket.gethostname()\<close>, the address found by the
  UDP probe of \<^verbatim>\<open>get_ip\<close>, the content of \<^verbatim>\<open>/etc/machine-id\<close> and \<^verbatim>\<open>uuid.getnode()\<close>.
\<close>

record host =
  gethostname :: "exn + string"
  ip_probe :: "exn + string"
  machine_id_file :: "exn + string"
  getnode :: "exn + nat"

record system_info =
  sys_hostname :: string
  sys_ip_maquina :: "string option"
  sys_id_maquina :: "string option"

text \<open>\<^verbatim>\<open>str.strip()\<close>, with the whitespace of \<^verbatim>\<open>str.isspace\<close> below code point 256.\<close>

definition is_space :: "char \<Rightarrow> bool" where
  "is_space c = ((of_char c :: nat) \<in> {9, 10, 11, 12, 13, 28, 29, 30, 31, 32, 133, 160})"

definition py_strip :: "string \<Rightarrow> string" where
  "py_strip s = rev (dropWhile is_space (rev (dropWhile is_space s)))"

text \<open>\<^verbatim>\<open>str\<close> of a natural number.\<close>

definition dec_digit :: "nat \<Rightarrow> char" where
  "dec_digit d = ''0123456789'' ! (d mod 10)"

function py_str_nat :: "nat \<Rightarrow> string" where
  "py_str_nat n = (if n < 10 then [dec_digit n] else py_str_nat (n div 10) @ [dec_digit (n mod 10)])"
  by pat_completeness auto
termination
  by (relation "measure id") auto

declare py_str_nat.simps [simp del]

definition get_hostname :: "host \<Rightarrow> exn + string" where
  "get_hostname h = gethostname h"

definition get_ip :: "host \<Rightarrow> string option" where
  "get_ip h = (case ip_probe h of Inl _ \<Rightarrow> None | Inr ip \<Rightarrow> Some ip)"

definition get_machine_id :: "host \<Rightarrow> string option" where
  "get_machine_id h =
     (case machine_id_file h of
        Inr content \<Rightarrow> Some (py_strip content)
      | Inl _ \<Rightarrow> (case getnode h of Inr n \<Rightarrow> Some (py_str_nat n) | Inl _ \<Rightarrow> None))"

definition get_system_info :: "bool \<Rightarrow> host \<Rightarrow> exn + system_info" where
  "get_system_info use_dynamic_ip h =
     (case get_hostname h of
        Inl e \<Rightarrow> Inl e
      | Inr hostname \<Rightarrow>
          Inr \<lparr>sys_hostname = hostname,
               sys_ip_maquina = (if use_dynamic_ip then get_ip h else None),
               sys_id_maquina = get_machine_id h\<rparr>)"

section \<open>The telemetry record\<close>

text \<open>
  The dictionary \<^verbatim>\<open>payload\<close> that \<^verbatim>\<open>main\<close> builds and \<^verbatim>\<open>insert_into_db\<close> reads: always
  the same twelve keys, so a record. The three location labels are whatever the
  configuration file holds under their keys.
\<close>

record payload =
  fecha_hora :: string
  nombre_sensor :: "string option"
  numero_serie :: "string option"
  ubicacion :: json
  hostname_maquina :: string
  ip_maquina :: "string option"
  id_maquina :: "string option"
  temperatura :: real
  humedad :: "real option"
  bateria :: "real option"
  cpd :: json
  sala :: json

section \<open>module/db\_connection.py\<close>

text \<open>A parameter bound to a placeholder of the \<^verbatim>\<open>INSERT\<close> statement.\<close>

datatype sql_value = Sql_null | Sql_text string | Sql_number real | Sql_json json

text \<open>
  The store as one delivery call finds it: the credentials file, and for each driver call
  the exception it raises, if any. Whether \<^verbatim>\<open>cursor.execute\<close> raises may depend on the
  values it is given.
\<close>

record store =
  credentials_path :: string
  credentials_file :: file_state
  connect_raises :: "exn option"
  cursor_raises :: "exn option"
  execute_raises :: "sql_value list \<Rightarrow> exn option"
  commit_raises :: "exn option"
  cursor_close_raises :: "exn option"
  conn_close_raises :: "exn option"

datatype connection = Connection

definition load_credentials :: "store \<Rightarrow> exn + json" where
  "load_credentials st =
     (case credentials_file st of
        No_file \<Rightarrow> Inl (FileNotFoundError (credentials_path st))
      | Read_fails e \<Rightarrow> Inl e
      | Parsed doc \<Rightarrow> py_getitem doc ''database'')"

definition is_mariadb_error :: "exn \<Rightarrow> bool" where
  "is_mariadb_error e = (case e of MariadbError _ \<Rightarrow> True | _ \<Rightarrow> False)"

text \<open>
  The keyword arguments of \<^verbatim>\<open>mariadb.connect\<close> are evaluated in order; the first lookup
  that fails raises.
\<close>

fun lookup_all :: "json \<Rightarrow> string list \<Rightarrow> exn option" where
  "lookup_all creds [] = None"
| "lookup_all creds (key # keys) =
     (case py_getitem creds key of Inl e \<Rightarrow> Some e | Inr _ \<Rightarrow> lookup_all creds keys)"

text \<open>The handler \<^verbatim>\<open>except mariadb.Error\<close> of \<^verbatim>\<open>get_db_connection\<close>.\<close>

definition connect_handler :: "exn \<Rightarrow> exn + connection option" where
  "connect_handler e = (if is_mariadb_error e then Inr None else Inl e)"

text \<open>\<^verbatim>\<open>load_credentials()\<close> is called before the \<^verbatim>\<open>try\<close> block.\<close>

definition get_db_connection :: "store \<Rightarrow> exn + connection option" where
  "get_db_connection st =
     (case load_credentials st of
        Inl e \<Rightarrow> Inl e
      | Inr creds \<Rightarrow>
          (case lookup_all creds [''host'', ''port'', ''user'', ''password'', ''database''] of
             Some e \<Rightarrow> connect_handler e
           | None \<Rightarrow>
               (case connect_raises st of
                  Some e \<Rightarrow> connect_handler e
                | None \<Rightarrow> Inr (Some Connection))))"

section \<open>module/json\_builder.py\<close>

definition text_or_null :: "string option \<Rightarrow> sql_value" where
  "text_or_null s = (case s of None \<Rightarrow> Sql_null | Some t \<Rightarrow> Sql_text t)"

definition number_or_null :: "real option \<Rightarrow> sql_value" where
  "number_or_null x = (case x of None \<Rightarrow> Sql_null | Some r \<Rightarrow> Sql_number r)"

text \<open>The tuple \<^verbatim>\<open>values\<close>, in the column order of the statement.\<close>

definition insert_values :: "payload \<Rightarrow> sql_value list" where
  "insert_values telemetry_data =
     [Sql_text (fecha_hora telemetry_data),
      text_or_null (nombre_sensor telemetry_data),
      text_or_null (numero_serie telemetry_data),
      Sql_json (ubicacion telemetry_data),
      Sql_text (hostname_maquina telemetry_data),
      text_or_null (ip_maquina telemetry_data),
      text_or_null (id_maquina telemetry_data),
      Sql_number (temperatura telemetry_data),
      number_or_null (humedad telemetry_data),
      number_or_null (bateria telemetry_data),
      Sql_json (cpd telemetry_data),
      Sql_json (sala telemetry_data)]"

text \<open>The handler \<^verbatim>\<open>except mariadb.Error\<close> of \<^verbatim>\<open>insert_into_db\<close>.\<close>

definition insert_handler :: "exn \<Rightarrow> exn + bool" where
  "insert_handler e = (if is_mariadb_error e then Inr False else Inl e)"

text \<open>The body of the \<^verbatim>\<open>try\<close> block together with its handler.\<close>

definition insert_try :: "store \<Rightarrow> payload \<Rightarrow> exn + bool" where
  "insert_try st telemetry_data =
     (case execute_raises st (insert_values telemetry_data) of
        Some e \<Rightarrow> insert_handler e
      | None \<Rightarrow> (case commit_raises st of Some e \<Rightarrow> insert_handler e | None \<Rightarrow> Inr True))"

text \<open>
  The \<^verbatim>\<open>finally\<close> block: \<^verbatim>\<open>cursor.close()\<close> then \<^verbatim>\<open>conn.close()\<close>; an exception raised
  there replaces the pending result.
\<close>

definition insert_finally :: "store \<Rightarrow> exn + bool \<Rightarrow> exn + bool" where
  "insert_finally st pending =
     (case cursor_close_raises st of
        Some e \<Rightarrow> Inl e
      | None \<Rightarrow> (case conn_close_raises st of Some e \<Rightarrow> Inl e | None \<Rightarrow> pending))"

text \<open>\<^verbatim>\<open>conn.cursor()\<close> is called before the \<^verbatim>\<open>try\<close> block.\<close>

definition insert_into_db :: "store \<Rightarrow> payload \<Rightarrow> exn + bool" where
  "insert_into_db st telemetry_data =
     (case get_db_connection st of
        Inl e \<Rightarrow> Inl e
      | Inr None \<Rightarrow> Inr False
      | Inr (Some conn) \<Rightarrow>
          (case cursor_raises st of
             Some e \<Rightarrow> Inl e
           | None \<Rightarrow> insert_finally st (insert_try st telemetry_data)))"

section \<open>main.py\<close>

text \<open>\<^verbatim>\<open>d.get(key, default)\<close>.\<close>

definition dict_get :: "metadata_dict \<Rightarrow> string \<Rightarrow> string option \<Rightarrow> string option" where
  "dict_get d key dflt = (case d key of None \<Rightarrow> dflt | Some v \<Rightarrow> v)"

text \<open>
  The lines written to the rotating log, by the call that writes them: the warning of an
  empty acquisition, the payload itself, the success line (sensor name and temperature),
  the failure line (sensor name) and the line of the outermost handler.
\<close>

datatype log_entry =
    Warning_no_sensors
  | Info_payload payload
  | Info_inserted "string option" real
  | Error_insert "string option"
  | Error_run exn

text \<open>What a run does, in order: device input, calls of \<^verbatim>\<open>insert_into_db\<close>, log lines.\<close>

datatype event = Sensor sensor_io | Deliver payload | Log log_entry

text \<open>
  Everything outside the program that a run meets. \<open>env_float\<close> and \<open>env_round2\<close> are
  the builtins \<^verbatim>\<open>float\<close> and \<^verbatim>\<open>round(temp, 2)\<close>, \<open>env_now i\<close> is the formatted
  \<^verbatim>\<open>datetime.now()\<close> of the \<open>i\<close>-th pass of the delivery loop and \<open>env_store i\<close> the store
  as the \<open>i\<close>-th call of \<^verbatim>\<open>insert_into_db\<close> finds it.
\<close>

record env =
  env_host :: host
  env_config_path :: string
  env_config_file :: file_state
  env_float :: "json \<Rightarrow> exn + real"
  env_round2 :: "real \<Rightarrow> real"
  env_devices :: "exn + device list"
  env_now :: "nat \<Rightarrow> string"
  env_store :: "nat \<Rightarrow> store"

text \<open>
  The dictionary literal \<^verbatim>\<open>payload\<close>; its three lookups in \<^verbatim>\<open>location\<close> can raise.
  \<open>round2\<close> is the builtin \<^verbatim>\<open>round(temp, 2)\<close>.
\<close>

definition build_payload ::
  "(real \<Rightarrow> real) \<Rightarrow> system_info \<Rightarrow> json \<Rightarrow> string \<Rightarrow> reading \<Rightarrow> exn + payload"
where
  "build_payload round2 system location stamp sensor =
     (let temp = temperature_c sensor; md = metadata sensor
      in case py_getitem location ''ubicacion'' of
           Inl e \<Rightarrow> Inl e
         | Inr ubi \<Rightarrow>
             (case py_getitem location ''cpd'' of
                Inl e \<Rightarrow> Inl e
              | Inr c \<Rightarrow>
                  (case py_getitem location ''sala'' of
                     Inl e \<Rightarrow> Inl e
                   | Inr s \<Rightarrow>
                       Inr \<lparr>fecha_hora = stamp,
                            nombre_sensor = dict_get md ''product'' (Some ''Desconocido''),
                            numero_serie = dict_get md ''serial_number'' None,
                            ubicacion = ubi,
                            hostname_maquina = sys_hostname system,
                            ip_maquina = sys_ip_maquina system,
                            id_maquina = sys_id_maquina system,
                            temperatura = round2 temp,
                            humedad = None,
                            bateria = None,
                            cpd = c,
                            sala = s\<rparr>)))"

text \<open>The line logged after \<^verbatim>\<open>insert_into_db\<close> has returned \<open>success\<close>.\<close>

definition outcome_entry :: "payload \<Rightarrow> bool \<Rightarrow> log_entry" where
  "outcome_entry p success =
     (if success then Info_inserted (nombre_sensor p) (temperatura p)
      else Error_insert (nombre_sensor p))"

text \<open>
  The loop \<^verbatim>\<open>for sensor in mediciones\<close>, from its \<open>i\<close>-th pass on, appending to the
  events so far. It returns the events and the exception that left the loop, if any.
\<close>

fun delivery_loop ::
  "(real \<Rightarrow> real) \<Rightarrow> system_info \<Rightarrow> json \<Rightarrow> (nat \<Rightarrow> string) \<Rightarrow> (nat \<Rightarrow> store) \<Rightarrow> nat \<Rightarrow> reading list \<Rightarrow>
     event list \<Rightarrow> event list \<times> exn option"
where
  "delivery_loop round2 system location clock stores i [] evs = (evs, None)"
| "delivery_loop round2 system location clock stores i (sensor # rest) evs =
     (case build_payload round2 system location (clock i) sensor of
        Inl e \<Rightarrow> (evs, Some e)
      | Inr p \<Rightarrow>
          (case insert_into_db (stores i) p of
             Inl e \<Rightarrow> (evs @ [Log (Info_payload p), Deliver p], Some e)
           | Inr success \<Rightarrow>
               delivery_loop round2 system location clock stores (Suc i) rest
                 (evs @ [Log (Info_payload p), Deliver p, Log (outcome_entry p success)])))"

text \<open>
  The body of the \<^verbatim>\<open>try\<close> block of \<^verbatim>\<open>main\<close>. The offset handed to \<^verbatim>\<open>get_medicion\<close> is the
  float that \<^verbatim>\<open>get_location_data\<close> stored; adding anything else to a temperature is a
  \<^verbatim>\<open>TypeError\<close>.
\<close>

definition main_try :: "env \<Rightarrow> event list \<times> exn option" where
  "main_try env =
     (case get_system_info True (env_host env) of
        Inl e \<Rightarrow> ([], Some e)
      | Inr system \<Rightarrow>
          (case get_location_data (env_float env) (env_config_path env) (env_config_file env) of
             Inl e \<Rightarrow> ([], Some e)
           | Inr location \<Rightarrow>
               (case py_getitem location ''offset_celsius'' of
                  Inl e \<Rightarrow> ([], Some e)
                | Inr (JFloat offset) \<Rightarrow>
                    (case get_medicion offset (env_devices env) of
                       (io, Inl e) \<Rightarrow> (map Sensor io, Some e)
                     | (io, Inr mediciones) \<Rightarrow>
                         (if mediciones = []
                          then (map Sensor io @ [Log Warning_no_sensors], None)
                          else delivery_loop (env_round2 env) system location (env_now env) (env_store env) 0
                                 mediciones (map Sensor io)))
                | Inr _ \<Rightarrow> ([], Some TypeError))))"

text \<open>\<^verbatim>\<open>main\<close>: the handler \<^verbatim>\<open>except Exception\<close> logs the exception and the run ends.\<close>

definition main :: "env \<Rightarrow> event list" where
  "main env =
     (case main_try env of
        (evs, None) \<Rightarrow> evs
      | (evs, Some e) \<Rightarrow> evs @ [Log (Error_run e)])"

section \<open>Observations on a run\<close>

text \<open>The payloads handed to \<^verbatim>\<open>insert_into_db\<close>, in order.\<close>

fun deliveries :: "event list \<Rightarrow> payload list" where
  "deliveries [] = []"
| "deliveries (Deliver p # evs) = p # deliveries evs"
| "deliveries (_ # evs) = deliveries evs"

text \<open>The payloads written to the log, in order.\<close>

fun logged_payloads :: "event list \<Rightarrow> payload list" where
  "logged_payloads [] = []"
| "logged_payloads (Log (Info_payload p) # evs) = p # logged_payloads evs"
| "logged_payloads (_ # evs) = logged_payloads evs"

text \<open>The number of failure lines \<^verbatim>\<open>Error al insertar en DB\<close> in the log.\<close>

fun failure_entries :: "event list \<Rightarrow> nat" where
  "failure_entries [] = 0"
| "failure_entries (Log (Error_insert _) # evs) = Suc (failure_entries evs)"
| "failure_entries (_ # evs) = failure_entries evs"

text \<open>The device input of a run, in order.\<close>

fun sensor_events :: "event list \<Rightarrow> sensor_io list" where
  "sensor_events [] = []"
| "sensor_events (Sensor io # evs) = io # sensor_events evs"
| "sensor_events (_ # evs) = sensor_events evs"

text \<open>The events of one pass of the delivery loop whose call of the sink returned \<open>b\<close>.\<close>

definition pass_events :: "payload \<times> bool \<Rightarrow> event list" where
  "pass_events pb = [Log (Info_payload (fst pb)), Deliver (fst pb), Log (outcome_entry (fst pb) (snd pb))]"


text \<open>A device is readable when neither its metadata extraction nor its temperature read raises.\<close>

definition readable :: "device \<Rightarrow> bool" where
  "readable dev = (\<not> isl (get_device_metadata dev) \<and> \<not> isl (get_temperature dev))"

text \<open>The \<^verbatim>\<open>try\<close> block of \<^verbatim>\<open>main\<close> from the call of \<^verbatim>\<open>get_medicion\<close> on, the context being loaded.\<close>

definition after_context :: "env \<Rightarrow> system_info \<Rightarrow> json \<Rightarrow> real \<Rightarrow> event list \<times> exn option" where
  "after_context env system location offset =
     (case get_medicion offset (env_devices env) of
        (io, Inl e) \<Rightarrow> (map Sensor io, Some e)
      | (io, Inr mediciones) \<Rightarrow>
          (if mediciones = []
           then (map Sensor io @ [Log Warning_no_sensors], None)
           else delivery_loop (env_round2 env) system location (env_now env) (env_store env) 0
                  mediciones (map Sensor io)))"

section \<open>Sample data\<close>

definition sample_descriptor :: descriptor where
  "sample_descriptor =
     \<lparr>idVendor = Inr 0x413d, idProduct = Inr 0x2107,
      manufacturer_string = Inr (Some ''RDing''),
      product_string = Inr (Some ''TEMPer Sensor''),
      serial_string = Inr (Some ''A1B2C3D4'')\<rparr>"

definition sample_device :: device where
  "sample_device = \<lparr>dev_descriptor = Some sample_descriptor, get_temperature = Inr 28.512\<rparr>"

definition device_without_descriptor :: device where
  "device_without_descriptor = \<lparr>dev_descriptor = None, get_temperature = Inr 27.3\<rparr>"

definition device_serial_denied :: device where
  "device_serial_denied =
     \<lparr>dev_descriptor = Some (sample_descriptor\<lparr>serial_string := Inl (USBError ''Access denied'')\<rparr>),
      get_temperature = Inr 25\<rparr>"

definition device_vendor_unreadable :: device where
  "device_vendor_unreadable =
     \<lparr>dev_descriptor = Some (sample_descriptor\<lparr>idVendor := Inl TypeError\<rparr>),
      get_temperature = Inr 25\<rparr>"

text \<open>A descriptor without the attribute \<^verbatim>\<open>idVendor\<close>, and one whose serial string is empty.\<close>

definition device_vendor_missing :: device where
  "device_vendor_missing =
     \<lparr>dev_descriptor = Some (sample_descriptor\<lparr>idVendor := Inl AttributeError\<rparr>),
      get_temperature = Inr 25\<rparr>"

definition device_serial_empty :: device where
  "device_serial_empty =
     \<lparr>dev_descriptor = Some (sample_descriptor\<lparr>serial_string := Inr (Some [])\<rparr>),
      get_temperature = Inr 25\<rparr>"

definition device_read_fails :: device where
  "device_read_fails =
     \<lparr>dev_descriptor = Some sample_descriptor, get_temperature = Inl (USBError ''timeout'')\<rparr>"

definition sample_host :: host where
  "sample_host =
     \<lparr>gethostname = Inr ''cpd-host'', ip_probe = Inr ''192.168.0.14'',
      machine_id_file = Inr (''a3f87b94'' @ [CHR 0x0A]), getnode = Inr 1\<rparr>"

definition sample_system :: system_info where
  "sample_system =
     \<lparr>sys_hostname = ''cpd-host'', sys_ip_maquina = Some ''192.168.0.14'',
      sys_id_maquina = Some ''a3f87b94''\<rparr>"

definition sample_offset :: real where
  "sample_offset = - 6.14"

definition sample_location :: json where
  "sample_location =
     JObj [(''ubicacion'', JStr ''Madrid''), (''cpd'', JStr ''CPD1''), (''sala'', JStr ''Sala A''),
           (''offset_celsius'', JFloat sample_offset)]"



text \<open>
  The builtin \<^verbatim>\<open>float\<close> on the values of the samples: numbers and booleans convert, the
  samples' strings are not numerals, anything else is a \<^verbatim>\<open>TypeError\<close>.
\<close>

definition sample_float :: "json \<Rightarrow> exn + real" where
  "sample_float v =
     (case v of
        JFloat r \<Rightarrow> Inr r
      | JInt n \<Rightarrow> Inr (of_int n)
      | JBool b \<Rightarrow> Inr (if b then 1 else 0)
      | JStr s \<Rightarrow> Inl ValueError
      | _ \<Rightarrow> Inl TypeError)"

text \<open>
  The builtin \<^verbatim>\<open>round(temp, 2)\<close> on the temperatures of the samples: 22.372 gives 22.37,
  the others have two decimals already.
\<close>

definition sample_round2 :: "real \<Rightarrow> real" where
  "sample_round2 x = (if x = 22.372 then 22.37 else x)"

definition sample_credentials :: json where
  "sample_credentials =
     JObj [(''database'',
            JObj [(''host'', JStr ''db''), (''port'', JInt 3306), (''user'', JStr ''temper''),
                  (''password'', JStr ''secret''), (''database'', JStr ''telemetria'')])]"

definition store_ok :: store where
  "store_ok =
     \<lparr>credentials_path = ''/opt/temper/config/credenciales.json'',
      credentials_file = Parsed sample_credentials,
      connect_raises = None, cursor_raises = None, execute_raises = (\<lambda>_. None),
      commit_raises = None, cursor_close_raises = None, conn_close_raises = None\<rparr>"

definition store_rejects :: store where
  "store_rejects = store_ok\<lparr>execute_raises := (\<lambda>_. Some (MariadbError ''insert rejected''))\<rparr>"

text \<open>A store whose \<^verbatim>\<open>cursor.execute\<close> raises something that is not a \<^verbatim>\<open>mariadb.Error\<close>.\<close>

definition store_execute_type_error :: store where
  "store_execute_type_error = store_ok\<lparr>execute_raises := (\<lambda>_. Some TypeError)\<rparr>"

definition store_without_credentials :: store where
  "store_without_credentials = store_ok\<lparr>credentials_file := No_file\<rparr>"

definition sample_env :: env where
  "sample_env =
     \<lparr>env_host = sample_host,
      env_config_path = ''/opt/temper/config/config.json'',
      env_config_file = Parsed sample_location,
      env_float = sample_float,
      env_round2 = sample_round2,
      env_devices = Inr [sample_device],
      env_now = (\<lambda>i. ''2025-11-15 12:00:00''),
      env_store = (\<lambda>i. store_ok)\<rparr>"

text \<open>The payload of the sample device in the sample environment.\<close>

definition sample_payload :: payload where
  "sample_payload =
     \<lparr>fecha_hora = ''2025-11-15 12:00:00'', nombre_sensor = Some ''TEMPer Sensor'',
      numero_serie = Some ''A1B2C3D4'', ubicacion = JStr ''Madrid'',
      hostname_maquina = ''cpd-host'', ip_maquina = Some ''192.168.0.14'',
      id_maquina = Some ''a3f87b94'', temperatura = 22.37, humedad = None, bateria = None,
      cpd = JStr ''CPD1'', sala = JStr ''Sala A''\<rparr>"

text \<open>The readings of the sample devices under the sample offset.\<close>

definition sample_metadata :: metadata_dict where
  "sample_metadata =
     [''vendor_id'' \<mapsto> Some ''0x413d'', ''product_id'' \<mapsto> Some ''0x2107'',
      ''manufacturer'' \<mapsto> Some ''RDing'', ''product'' \<mapsto> Some ''TEMPer Sensor'',
      ''serial_number'' \<mapsto> Some ''A1B2C3D4'']"

definition sample_reading :: reading where
  "sample_reading = \<lparr>metadata = sample_metadata, temperature_c = 22.372\<rparr>"

definition reading_without_descriptor :: reading where
  "reading_without_descriptor =
     \<lparr>metadata = absent_descriptor_metadata, temperature_c = 21.16\<rparr>"

text \<open>Two more payloads: of the device without descriptor and of the one whose serial is refused.\<close>

definition payload_without_descriptor :: payload where
  "payload_without_descriptor =
     sample_payload\<lparr>nombre_sensor := None, numero_serie := Some ''Desconocido'',
                     temperatura := 21.16\<rparr>"

definition payload_serial_denied :: payload where
  "payload_serial_denied =
     sample_payload\<lparr>numero_serie := Some ''Desconocido'', temperatura := 18.86\<rparr>"

definition reading_serial_denied :: reading where
  "reading_serial_denied =
     \<lparr>metadata = sample_metadata(''serial_number'' \<mapsto> Some ''Desconocido''),
      temperature_c = 18.86\<rparr>"

text \<open>A store that rejects the second insert of a run and accepts the others.\<close>

definition stores_second_fails :: "nat \<Rightarrow> store" where
  "stores_second_fails i = (if i = 1 then store_rejects else store_ok)"



definition env_without_credentials :: env where
  "env_without_credentials = sample_env\<lparr>env_store := (\<lambda>i. store_without_credentials)\<rparr>"

definition env_absent_product :: env where
  "env_absent_product = sample_env\<lparr>env_devices := Inr [device_without_descriptor]\<rparr>"

definition env_read_fails :: env where
  "env_read_fails = sample_env\<lparr>env_devices := Inr [sample_device, device_read_fails]\<rparr>"

definition env_two_devices :: env where
  "env_two_devices = sample_env\<lparr>env_devices := Inr [sample_device, device_without_descriptor]\<rparr>"

section \<open>Facts about the samples and the acquisition loop\<close>

lemma sample_device_metadata: "get_device_metadata sample_device = Inr sample_metadata"
  by (simp add: get_device_metadata_def read_manufacturer_def read_product_def read_serial_def
      truthy_def py_hex_def hex_nat.simps hex_digit_def sample_device_def sample_descriptor_def
      sample_metadata_def)

lemma device_without_descriptor_metadata:
  "get_device_metadata device_without_descriptor = Inr absent_descriptor_metadata"
  by (simp add: get_device_metadata_def outer_handler_def device_without_descriptor_def)

lemma sample_device_temperature: "get_temperature sample_device = Inr 28.512"
  by (simp add: sample_device_def)

lemma device_without_descriptor_temperature:
  "get_temperature device_without_descriptor = Inr 27.3"
  by (simp add: device_without_descriptor_def)



lemma sample_medicion:
  "get_medicion off (Inr [sample_device, device_without_descriptor]) =
     ([Enumerate_devices, Read_descriptor, Read_temperature, Read_descriptor, Read_temperature],
      Inr [\<lparr>metadata = sample_metadata, temperature_c = 28.512 + off\<rparr>,
           \<lparr>metadata = absent_descriptor_metadata, temperature_c = 27.3 + off\<rparr>])"
  by (simp add: get_medicion_def sample_device_metadata device_without_descriptor_metadata
      sample_device_temperature device_without_descriptor_temperature)

section \<open>Acquisition returns one reading per device\<close>



section \<open>Metadata extraction degrades in two tiers\<close>

text \<open>
  C3, as amended. A handle without descriptor, or whose vendor or product identifier read
  raises \<^verbatim>\<open>AttributeError\<close>, yields the dictionary with every field null except the serial
  number \<^verbatim>\<open>'Desconocido'\<close>. A handle whose descriptor gives both identifiers yields a
  dictionary and never raises: the identifiers are stored in hexadecimal; the manufacturer
  and the product hold what their read returned and are null when the read fails; the
  serial number holds the string read when it is not empty and is \<^verbatim>\<open>'Desconocido'\<close> when
  the read fails or returns null or the empty string; and a read that fails changes only
  its own field, every sibling field keeping its value.
\<close>

theorem get_device_metadata_two_tiers:
  "(dev_descriptor dev = None
      \<or> dev_descriptor dev = Some dsc
          \<and> (idVendor dsc = Inl AttributeError
               \<or> idVendor dsc = Inr vid \<and> idProduct dsc = Inl AttributeError)
    \<longrightarrow> get_device_metadata dev =
        Inr [''vendor_id'' \<mapsto> None, ''product_id'' \<mapsto> None, ''manufacturer'' \<mapsto> None,
             ''product'' \<mapsto> None, ''serial_number'' \<mapsto> Some ''Desconocido''])
   \<and> (dev_descriptor dev = Some dsc \<and> idVendor dsc = Inr vid \<and> idProduct dsc = Inr pid \<longrightarrow>
        (\<exists>md. get_device_metadata dev = Inr md
           \<and> md ''vendor_id'' = Some (Some (py_hex vid))
           \<and> md ''product_id'' = Some (Some (py_hex pid))
           \<and> (\<forall>s. manufacturer_string dsc = Inr s \<longrightarrow> md ''manufacturer'' = Some s)
           \<and> (isl (manufacturer_string dsc) \<longrightarrow> md ''manufacturer'' = Some None)
           \<and> (\<forall>s. product_string dsc = Inr s \<longrightarrow> md ''product'' = Some s)
           \<and> (isl (product_string dsc) \<longrightarrow> md ''product'' = Some None)
           \<and> (\<forall>s. serial_string dsc = Inr (Some s) \<and> s \<noteq> [] \<longrightarrow>
                  md ''serial_number'' = Some (Some s))
           \<and> (isl (serial_string dsc) \<or> serial_string dsc = Inr None
                 \<or> serial_string dsc = Inr (Some [])
               \<longrightarrow> md ''serial_number'' = Some (Some ''Desconocido''))
           \<and> get_device_metadata (dev\<lparr>dev_descriptor := Some (dsc\<lparr>manufacturer_string := Inl e\<rparr>)\<rparr>)
               = Inr (md(''manufacturer'' \<mapsto> None))
           \<and> get_device_metadata (dev\<lparr>dev_descriptor := Some (dsc\<lparr>product_string := Inl e\<rparr>)\<rparr>)
               = Inr (md(''product'' \<mapsto> None))
           \<and> get_device_metadata (dev\<lparr>dev_descriptor := Some (dsc\<lparr>serial_string := Inl e\<rparr>)\<rparr>)
               = Inr (md(''serial_number'' \<mapsto> Some ''Desconocido''))))"
proof (intro conjI impI)
  assume "dev_descriptor dev = None
      \<or> dev_descriptor dev = Some dsc
          \<and> (idVendor dsc = Inl AttributeError
               \<or> idVendor dsc = Inr vid \<and> idProduct dsc = Inl AttributeError)"
  then show "get_device_metadata dev =
        Inr [''vendor_id'' \<mapsto> None, ''product_id'' \<mapsto> None, ''manufacturer'' \<mapsto> None,
             ''product'' \<mapsto> None, ''serial_number'' \<mapsto> Some ''Desconocido'']"
    by (auto simp: get_device_metadata_def outer_handler_def absent_descriptor_metadata_def)
next
  assume h: "dev_descriptor dev = Some dsc \<and> idVendor dsc = Inr vid \<and> idProduct dsc = Inr pid"
  let ?md = "[''vendor_id'' \<mapsto> Some (py_hex vid), ''product_id'' \<mapsto> Some (py_hex pid),
              ''manufacturer'' \<mapsto> read_manufacturer dsc, ''product'' \<mapsto> read_product dsc,
              ''serial_number'' \<mapsto> read_serial dsc]"
  have md: "get_device_metadata dev = Inr ?md"
    using h by (simp add: get_device_metadata_def)
  have a: "?md ''vendor_id'' = Some (Some (py_hex vid))" by simp
  have b: "?md ''product_id'' = Some (Some (py_hex pid))" by simp
  have c: "\<forall>s. manufacturer_string dsc = Inr s \<longrightarrow> ?md ''manufacturer'' = Some s"
    by (simp add: read_manufacturer_def)
  have c': "isl (manufacturer_string dsc) \<longrightarrow> ?md ''manufacturer'' = Some None"
    by (cases "manufacturer_string dsc") (simp_all add: read_manufacturer_def)
  have d: "\<forall>s. product_string dsc = Inr s \<longrightarrow> ?md ''product'' = Some s"
    by (simp add: read_product_def)
  have d': "isl (product_string dsc) \<longrightarrow> ?md ''product'' = Some None"
    by (cases "product_string dsc") (simp_all add: read_product_def)
  have f: "\<forall>s. serial_string dsc = Inr (Some s) \<and> s \<noteq> [] \<longrightarrow> ?md ''serial_number'' = Some (Some s)"
    by (simp add: read_serial_def truthy_def)
  have f': "isl (serial_string dsc) \<or> serial_string dsc = Inr None
                 \<or> serial_string dsc = Inr (Some [])
               \<longrightarrow> ?md ''serial_number'' = Some (Some ''Desconocido'')"
    by (cases "serial_string dsc") (auto simp: read_serial_def truthy_def)
  have g1: "get_device_metadata (dev\<lparr>dev_descriptor := Some (dsc\<lparr>manufacturer_string := Inl e\<rparr>)\<rparr>)
               = Inr (?md(''manufacturer'' \<mapsto> None))"
    using h by (auto simp: get_device_metadata_def read_manufacturer_def read_product_def
        read_serial_def fun_eq_iff)
  have g2: "get_device_metadata (dev\<lparr>dev_descriptor := Some (dsc\<lparr>product_string := Inl e\<rparr>)\<rparr>)
               = Inr (?md(''product'' \<mapsto> None))"
    using h by (auto simp: get_device_metadata_def read_manufacturer_def read_product_def
        read_serial_def fun_eq_iff)
  have g3: "get_device_metadata (dev\<lparr>dev_descriptor := Some (dsc\<lparr>serial_string := Inl e\<rparr>)\<rparr>)
               = Inr (?md(''serial_number'' \<mapsto> Some ''Desconocido''))"
    using h by (auto simp: get_device_metadata_def read_manufacturer_def read_product_def
        read_serial_def fun_eq_iff)
  show "\<exists>md. get_device_metadata dev = Inr md
           \<and> md ''vendor_id'' = Some (Some (py_hex vid))
           \<and> md ''product_id'' = Some (Some (py_hex pid))
           \<and> (\<forall>s. manufacturer_string dsc = Inr s \<longrightarrow> md ''manufacturer'' = Some s)
           \<and> (isl (manufacturer_string dsc) \<longrightarrow> md ''manufacturer'' = Some None)
           \<and> (\<forall>s. product_string dsc = Inr s \<longrightarrow> md ''product'' = Some s)
           \<and> (isl (product_string dsc) \<longrightarrow> md ''product'' = Some None)
           \<and> (\<forall>s. serial_string dsc = Inr (Some s) \<and> s \<noteq> [] \<longrightarrow>
                  md ''serial_number'' = Some (Some s))
           \<and> (isl (serial_string dsc) \<or> serial_string dsc = Inr None
                 \<or> serial_string dsc = Inr (Some [])
               \<longrightarrow> md ''serial_number'' = Some (Some ''Desconocido''))
           \<and> get_device_metadata (dev\<lparr>dev_descriptor := Some (dsc\<lparr>manufacturer_string := Inl e\<rparr>)\<rparr>)
               = Inr (md(''manufacturer'' \<mapsto> None))
           \<and> get_device_metadata (dev\<lparr>dev_descriptor := Some (dsc\<lparr>product_string := Inl e\<rparr>)\<rparr>)
               = Inr (md(''product'' \<mapsto> None))
           \<and> get_device_metadata (dev\<lparr>dev_descriptor := Some (dsc\<lparr>serial_string := Inl e\<rparr>)\<rparr>)
               = Inr (md(''serial_number'' \<mapsto> Some ''Desconocido''))"
    using md a b c c' d d' f f' g1 g2 g3 by (intro exI [of _ ?md] conjI)
qed

theorem get_device_metadata_two_tiers_witness:
  "dev_descriptor device_without_descriptor = None
   \<and> get_device_metadata device_without_descriptor =
        Inr [''vendor_id'' \<mapsto> None, ''product_id'' \<mapsto> None, ''manufacturer'' \<mapsto> None,
             ''product'' \<mapsto> None, ''serial_number'' \<mapsto> Some ''Desconocido'']
   \<and> dev_descriptor device_vendor_missing
       = Some (sample_descriptor\<lparr>idVendor := Inl AttributeError\<rparr>)
   \<and> get_device_metadata device_vendor_missing =
        Inr [''vendor_id'' \<mapsto> None, ''product_id'' \<mapsto> None, ''manufacturer'' \<mapsto> None,
             ''product'' \<mapsto> None, ''serial_number'' \<mapsto> Some ''Desconocido'']
   \<and> dev_descriptor sample_device = Some sample_descriptor
   \<and> idVendor sample_descriptor = Inr 0x413d
   \<and> idProduct sample_descriptor = Inr 0x2107
   \<and> manufacturer_string sample_descriptor = Inr (Some ''RDing'')
   \<and> product_string sample_descriptor = Inr (Some ''TEMPer Sensor'')
   \<and> serial_string sample_descriptor = Inr (Some ''A1B2C3D4'')
   \<and> get_device_metadata sample_device = Inr sample_metadata
   \<and> sample_metadata ''manufacturer'' = Some (Some ''RDing'')
   \<and> sample_metadata ''product'' = Some (Some ''TEMPer Sensor'')
   \<and> sample_metadata ''serial_number'' = Some (Some ''A1B2C3D4'')
   \<and> get_device_metadata
        (sample_device\<lparr>dev_descriptor :=
           Some (sample_descriptor\<lparr>product_string := Inl (USBError ''Access denied'')\<rparr>)\<rparr>)
       = Inr (sample_metadata(''product'' \<mapsto> None))
   \<and> get_device_metadata
        (sample_device\<lparr>dev_descriptor :=
           Some (sample_descriptor\<lparr>serial_string := Inl (USBError ''Access denied'')\<rparr>)\<rparr>)
       = Inr (sample_metadata(''serial_number'' \<mapsto> Some ''Desconocido''))
   \<and> serial_string (sample_descriptor\<lparr>serial_string := Inr (Some [])\<rparr>) = Inr (Some [])
   \<and> get_device_metadata device_serial_empty
       = Inr (sample_metadata(''serial_number'' \<mapsto> Some ''Desconocido''))"
proof -
  let ?denied = "USBError ''Access denied''"
  let ?missing = "sample_descriptor\<lparr>idVendor := Inl AttributeError\<rparr>"
  let ?empty = "sample_descriptor\<lparr>serial_string := Inr (Some [])\<rparr>"
  have none: "dev_descriptor device_without_descriptor = None"
    by (simp add: device_without_descriptor_def)
  have missing: "dev_descriptor device_vendor_missing = Some ?missing
      \<and> idVendor ?missing = Inl AttributeError"
    by (simp add: device_vendor_missing_def)
  have some: "dev_descriptor sample_device = Some sample_descriptor
      \<and> idVendor sample_descriptor = Inr 0x413d \<and> idProduct sample_descriptor = Inr 0x2107"
    by (simp add: sample_device_def sample_descriptor_def)
  have reads: "manufacturer_string sample_descriptor = Inr (Some ''RDing'')"
    "product_string sample_descriptor = Inr (Some ''TEMPer Sensor'')"
    "serial_string sample_descriptor = Inr (Some ''A1B2C3D4'')"
    by (simp_all add: sample_descriptor_def)
  have empty: "dev_descriptor device_serial_empty = Some ?empty
      \<and> idVendor ?empty = Inr 0x413d \<and> idProduct ?empty = Inr 0x2107"
    "serial_string ?empty = Inr (Some [])"
    by (simp_all add: device_serial_empty_def sample_descriptor_def)
  from get_device_metadata_two_tiers [of device_without_descriptor sample_descriptor 0 0 TypeError]
    none
  have t1: "get_device_metadata device_without_descriptor =
        Inr [''vendor_id'' \<mapsto> None, ''product_id'' \<mapsto> None, ''manufacturer'' \<mapsto> None,
             ''product'' \<mapsto> None, ''serial_number'' \<mapsto> Some ''Desconocido'']"
    by blast
  from get_device_metadata_two_tiers [of device_vendor_missing ?missing 0 0 TypeError] missing
  have t2: "get_device_metadata device_vendor_missing =
        Inr [''vendor_id'' \<mapsto> None, ''product_id'' \<mapsto> None, ''manufacturer'' \<mapsto> None,
             ''product'' \<mapsto> None, ''serial_number'' \<mapsto> Some ''Desconocido'']"
    by blast
  from get_device_metadata_two_tiers
         [of sample_device sample_descriptor "0x413d" "0x2107" ?denied] some
  obtain md where md: "get_device_metadata sample_device = Inr md"
    and m: "\<forall>s. manufacturer_string sample_descriptor = Inr s \<longrightarrow> md ''manufacturer'' = Some s"
    and p: "\<forall>s. product_string sample_descriptor = Inr s \<longrightarrow> md ''product'' = Some s"
    and sn: "\<forall>s. serial_string sample_descriptor = Inr (Some s) \<and> s \<noteq> [] \<longrightarrow>
                  md ''serial_number'' = Some (Some s)"
    and pf: "get_device_metadata
        (sample_device\<lparr>dev_descriptor :=
           Some (sample_descriptor\<lparr>product_string := Inl ?denied\<rparr>)\<rparr>)
       = Inr (md(''product'' \<mapsto> None))"
    and sf: "get_device_metadata
        (sample_device\<lparr>dev_descriptor :=
           Some (sample_descriptor\<lparr>serial_string := Inl ?denied\<rparr>)\<rparr>)
       = Inr (md(''serial_number'' \<mapsto> Some ''Desconocido''))"
    by blast
  from md have eq: "md = sample_metadata" by (simp add: sample_device_metadata)
  from m p sn reads eq have held: "sample_metadata ''manufacturer'' = Some (Some ''RDing'')"
    "sample_metadata ''product'' = Some (Some ''TEMPer Sensor'')"
    "sample_metadata ''serial_number'' = Some (Some ''A1B2C3D4'')"
    by simp_all
  from get_device_metadata_two_tiers [of device_serial_empty ?empty "0x413d" "0x2107" ?denied]
    empty
  obtain md' where md': "get_device_metadata device_serial_empty = Inr md'"
    and unknown: "md' ''serial_number'' = Some (Some ''Desconocido'')"
    by blast
  have t4: "get_device_metadata device_serial_empty
       = Inr (sample_metadata(''serial_number'' \<mapsto> Some ''Desconocido''))"
    by (simp add: get_device_metadata_def read_manufacturer_def read_product_def read_serial_def
        truthy_def py_hex_def hex_nat.simps hex_digit_def device_serial_empty_def
        sample_descriptor_def sample_metadata_def)
  from none missing some reads empty t1 t2 md eq held pf sf t4 show ?thesis by simp
qed

text \<open>
  C3 as stated fails twice: a serial number whose read is refused becomes the sentinel,
  not null, and a vendor identifier whose read raises anything but \<^verbatim>\<open>AttributeError\<close>
  makes the extraction raise.
\<close>

theorem get_device_metadata_counterexample:
  "get_device_metadata device_serial_denied =
     Inr [''vendor_id'' \<mapsto> Some ''0x413d'', ''product_id'' \<mapsto> Some ''0x2107'',
          ''manufacturer'' \<mapsto> Some ''RDing'', ''product'' \<mapsto> Some ''TEMPer Sensor'',
          ''serial_number'' \<mapsto> Some ''Desconocido'']
   \<and> get_device_metadata device_vendor_unreadable = Inl TypeError"
  by (simp add: get_device_metadata_def read_manufacturer_def read_product_def read_serial_def
      truthy_def py_hex_def hex_nat.simps hex_digit_def device_serial_denied_def
      device_vendor_unreadable_def sample_descriptor_def outer_handler_def)

section \<open>The delivery sink and the exceptions it lets through\<close>

text \<open>
  What the two handlers \<^verbatim>\<open>except mariadb.Error\<close> cover: with the credentials loaded, a
  \<^verbatim>\<open>mariadb.Error\<close> of \<^verbatim>\<open>mariadb.connect\<close> gives false; on an open connection whose cursor
  and close calls raise nothing, a \<^verbatim>\<open>mariadb.Error\<close> of \<^verbatim>\<open>cursor.execute\<close> or of
  \<^verbatim>\<open>conn.commit\<close> gives false; and true is returned only when the connection was
  established and neither \<^verbatim>\<open>execute\<close> nor \<^verbatim>\<open>commit\<close> raised.
\<close>

lemma insert_into_db_driver_errors:
  "(load_credentials st = Inr creds
      \<and> lookup_all creds [''host'', ''port'', ''user'', ''password'', ''database''] = None
      \<and> connect_raises st = Some (MariadbError m)
      \<longrightarrow> insert_into_db st p = Inr False)
   \<and> (get_db_connection st = Inr (Some Connection)
      \<and> cursor_raises st = None \<and> cursor_close_raises st = None \<and> conn_close_raises st = None
      \<and> (execute_raises st (insert_values p) = Some (MariadbError m)
           \<or> execute_raises st (insert_values p) = None \<and> commit_raises st = Some (MariadbError m))
      \<longrightarrow> insert_into_db st p = Inr False)
   \<and> (insert_into_db st p = Inr True
      \<longrightarrow> get_db_connection st = Inr (Some Connection)
        \<and> execute_raises st (insert_values p) = None \<and> commit_raises st = None)"
proof (intro conjI impI)
  assume "load_credentials st = Inr creds
      \<and> lookup_all creds [''host'', ''port'', ''user'', ''password'', ''database''] = None
      \<and> connect_raises st = Some (MariadbError m)"
  then have "get_db_connection st = Inr None"
    by (simp add: get_db_connection_def connect_handler_def is_mariadb_error_def)
  then show "insert_into_db st p = Inr False" by (simp add: insert_into_db_def)
next
  assume "get_db_connection st = Inr (Some Connection)
      \<and> cursor_raises st = None \<and> cursor_close_raises st = None \<and> conn_close_raises st = None
      \<and> (execute_raises st (insert_values p) = Some (MariadbError m)
           \<or> execute_raises st (insert_values p) = None \<and> commit_raises st = Some (MariadbError m))"
  then show "insert_into_db st p = Inr False"
    by (auto simp: insert_into_db_def insert_finally_def insert_try_def insert_handler_def
        is_mariadb_error_def)
next
  assume t: "insert_into_db st p = Inr True"
  then have conn: "get_db_connection st = Inr (Some Connection)"
    by (auto simp: insert_into_db_def split: sum.splits option.splits connection.splits)
       (metis connection.exhaust)
  from t conn have "insert_try st p = Inr True"
    by (auto simp: insert_into_db_def insert_finally_def split: option.splits)
  then have "execute_raises st (insert_values p) = None \<and> commit_raises st = None"
    by (auto simp: insert_try_def insert_handler_def split: option.splits if_splits)
  with conn show "get_db_connection st = Inr (Some Connection)"
    "execute_raises st (insert_values p) = None" "commit_raises st = None" by simp_all
qed

text \<open>
  C2 on the code. Without the credentials file no connection can be established, and
  \<^verbatim>\<open>get_db_connection\<close>, whose \<^verbatim>\<open>load_credentials()\<close> stands before the \<^verbatim>\<open>try\<close>, raises
  \<^verbatim>\<open>FileNotFoundError\<close> where its docstring promises \<^verbatim>\<open>None\<close>; so \<^verbatim>\<open>insert_into_db\<close>
  raises where the claim and its docstring say false. An insert that fails with anything
  but a \<^verbatim>\<open>mariadb.Error\<close> raises as well.
\<close>

theorem insert_into_db_raises_without_credentials:
  "get_db_connection store_without_credentials
     = Inl (FileNotFoundError ''/opt/temper/config/credenciales.json'')
   \<and> insert_into_db store_without_credentials sample_payload
     = Inl (FileNotFoundError ''/opt/temper/config/credenciales.json'')
   \<and> insert_into_db store_execute_type_error sample_payload = Inl TypeError"
  by (simp add: insert_into_db_def get_db_connection_def load_credentials_def py_getitem_def
      insert_finally_def insert_try_def insert_handler_def is_mariadb_error_def
      store_without_credentials_def store_execute_type_error_def store_ok_def
      sample_credentials_def)

section \<open>Facts about the orchestrator\<close>

lemma deliveries_append: "deliveries (xs @ ys) = deliveries xs @ deliveries ys"
  by (induction xs rule: deliveries.induct) simp_all

lemma logged_payloads_append: "logged_payloads (xs @ ys) = logged_payloads xs @ logged_payloads ys"
  by (induction xs rule: logged_payloads.induct) simp_all

lemma failure_entries_append: "failure_entries (xs @ ys) = failure_entries xs + failure_entries ys"
  by (induction xs rule: failure_entries.induct) simp_all

lemma sensor_events_append: "sensor_events (xs @ ys) = sensor_events xs @ sensor_events ys"
  by (induction xs rule: sensor_events.induct) simp_all

lemma deliveries_map_Sensor: "deliveries (map Sensor io) = []"
  by (induction io) simp_all

lemma logged_payloads_map_Sensor: "logged_payloads (map Sensor io) = []"
  by (induction io) simp_all

lemma deliveries_passes:
  "length ps = length bs \<Longrightarrow> deliveries (concat (map pass_events (zip ps bs))) = ps"
  by (induction ps bs rule: list_induct2) (simp_all add: pass_events_def)

lemma logged_payloads_passes:
  "length ps = length bs \<Longrightarrow> logged_payloads (concat (map pass_events (zip ps bs))) = ps"
  by (induction ps bs rule: list_induct2) (simp_all add: pass_events_def outcome_entry_def)

lemma failure_entries_passes:
  "length ps = length bs \<Longrightarrow>
     failure_entries (concat (map pass_events (zip ps bs))) = length (filter Not bs)"
  by (induction ps bs rule: list_induct2) (simp_all add: pass_events_def outcome_entry_def)

lemma delivery_loop_boolean_outcomes:
  "length ps = length rs \<Longrightarrow> length bs = length rs \<Longrightarrow>
   (\<forall>j<length rs. build_payload round2 system location (clock (i + j)) (rs ! j) = Inr (ps ! j)
       \<and> insert_into_db (stores (i + j)) (ps ! j) = Inr (bs ! j)) \<Longrightarrow>
   delivery_loop round2 system location clock stores i rs evs
     = (evs @ concat (map pass_events (zip ps bs)), None)"
proof (induction rs arbitrary: ps bs i evs)
  case Nil
  then show ?case by simp
next
  case (Cons r rs)
  from Cons.prems(1,2) obtain p ps' b bs' where ps: "ps = p # ps'" and bs: "bs = b # bs'"
    by (cases ps; cases bs) simp_all
  from Cons.prems(3) [rule_format, of 0] ps bs
  have head: "build_payload round2 system location (clock i) r = Inr p"
    "insert_into_db (stores i) p = Inr b" by simp_all
  have tail: "\<forall>j<length rs. build_payload round2 system location (clock (Suc i + j)) (rs ! j) = Inr (ps' ! j)
       \<and> insert_into_db (stores (Suc i + j)) (ps' ! j) = Inr (bs' ! j)"
  proof (intro allI impI)
    fix j assume "j < length rs"
    with Cons.prems(3) [rule_format, of "Suc j"] ps bs
    show "build_payload round2 system location (clock (Suc i + j)) (rs ! j) = Inr (ps' ! j)
       \<and> insert_into_db (stores (Suc i + j)) (ps' ! j) = Inr (bs' ! j)" by simp
  qed
  from Cons.prems(1,2) ps bs have len: "length ps' = length rs" "length bs' = length rs"
    by simp_all
  from Cons.IH [OF len tail] head ps bs show ?case
    by (simp add: pass_events_def)
qed

section \<open>A failed delivery does not stop the batch\<close>

text \<open>
  C1. For every sequence of readings \<open>rs\<close> and every sequence of boolean outcomes \<open>bs\<close>
  of the sink, one per reading, the delivery loop runs to its end without exception; it
  assembles, logs and hands to the sink the payload of every reading, in order, each
  followed by its success or failure line; and it writes exactly one failure line per
  false outcome.
\<close>

theorem delivery_loop_isolates_failures:
  "length ps = length rs \<and> length bs = length rs
   \<and> (\<forall>j<length rs. build_payload round2 system location (clock j) (rs ! j) = Inr (ps ! j)
          \<and> insert_into_db (stores j) (ps ! j) = Inr (bs ! j))
   \<longrightarrow> snd (delivery_loop round2 system location clock stores 0 rs evs) = None
     \<and> fst (delivery_loop round2 system location clock stores 0 rs evs)
         = evs @ concat (map pass_events (zip ps bs))
     \<and> deliveries (fst (delivery_loop round2 system location clock stores 0 rs evs))
         = deliveries evs @ ps
     \<and> logged_payloads (fst (delivery_loop round2 system location clock stores 0 rs evs))
         = logged_payloads evs @ ps
     \<and> failure_entries (fst (delivery_loop round2 system location clock stores 0 rs evs))
         = failure_entries evs + length (filter Not bs)"
proof (intro impI)
  assume h: "length ps = length rs \<and> length bs = length rs
   \<and> (\<forall>j<length rs. build_payload round2 system location (clock j) (rs ! j) = Inr (ps ! j)
          \<and> insert_into_db (stores j) (ps ! j) = Inr (bs ! j))"
  then have len: "length ps = length bs" by simp
  from h have "delivery_loop round2 system location clock stores 0 rs evs
     = (evs @ concat (map pass_events (zip ps bs)), None)"
    using delivery_loop_boolean_outcomes [of ps rs bs round2 system location clock 0 stores evs] by simp
  then show "snd (delivery_loop round2 system location clock stores 0 rs evs) = None
     \<and> fst (delivery_loop round2 system location clock stores 0 rs evs)
         = evs @ concat (map pass_events (zip ps bs))
     \<and> deliveries (fst (delivery_loop round2 system location clock stores 0 rs evs))
         = deliveries evs @ ps
     \<and> logged_payloads (fst (delivery_loop round2 system location clock stores 0 rs evs))
         = logged_payloads evs @ ps
     \<and> failure_entries (fst (delivery_loop round2 system location clock stores 0 rs evs))
         = failure_entries evs + length (filter Not bs)"
    using len by (simp add: deliveries_append logged_payloads_append failure_entries_append
        deliveries_passes logged_payloads_passes failure_entries_passes)
qed

lemma build_sample_payload:
  "build_payload sample_round2 sample_system sample_location ''2025-11-15 12:00:00'' sample_reading
     = Inr sample_payload"
  by (simp add: build_payload_def py_getitem_def dict_get_def sample_system_def
      sample_location_def sample_reading_def sample_metadata_def sample_payload_def
      sample_round2_def Let_def)

lemma build_payload_without_descriptor:
  "build_payload sample_round2 sample_system sample_location ''2025-11-15 12:00:00'' reading_without_descriptor
     = Inr payload_without_descriptor"
  by (simp add: build_payload_def py_getitem_def dict_get_def sample_system_def
      sample_location_def reading_without_descriptor_def absent_descriptor_metadata_def
      payload_without_descriptor_def sample_payload_def sample_round2_def Let_def)

lemma build_payload_serial_denied:
  "build_payload sample_round2 sample_system sample_location ''2025-11-15 12:00:00'' reading_serial_denied
     = Inr payload_serial_denied"
  by (simp add: build_payload_def py_getitem_def dict_get_def sample_system_def
      sample_location_def reading_serial_denied_def sample_metadata_def
      payload_serial_denied_def sample_payload_def sample_round2_def Let_def)

lemma store_ok_inserts: "insert_into_db store_ok p = Inr True"
  by (simp add: insert_into_db_def get_db_connection_def load_credentials_def py_getitem_def
      insert_finally_def insert_try_def store_ok_def sample_credentials_def)

lemma store_rejects_inserts: "insert_into_db store_rejects p = Inr False"
  by (simp add: insert_into_db_def get_db_connection_def load_credentials_def py_getitem_def
      insert_finally_def insert_try_def insert_handler_def is_mariadb_error_def
      store_rejects_def store_ok_def sample_credentials_def)

theorem delivery_loop_isolates_failures_witness:
  "fst (delivery_loop sample_round2 sample_system sample_location (\<lambda>i. ''2025-11-15 12:00:00'')
          stores_second_fails 0
          [sample_reading, reading_without_descriptor, reading_serial_denied] [])
     = [Log (Info_payload sample_payload), Deliver sample_payload,
        Log (Info_inserted (Some ''TEMPer Sensor'') 22.37),
        Log (Info_payload payload_without_descriptor), Deliver payload_without_descriptor,
        Log (Error_insert None),
        Log (Info_payload payload_serial_denied), Deliver payload_serial_denied,
        Log (Info_inserted (Some ''TEMPer Sensor'') 18.86)]
   \<and> snd (delivery_loop sample_round2 sample_system sample_location (\<lambda>i. ''2025-11-15 12:00:00'')
          stores_second_fails 0
          [sample_reading, reading_without_descriptor, reading_serial_denied] []) = None
   \<and> failure_entries (fst (delivery_loop sample_round2 sample_system sample_location
          (\<lambda>i. ''2025-11-15 12:00:00'') stores_second_fails 0
          [sample_reading, reading_without_descriptor, reading_serial_denied] [])) = 1"
proof -
  let ?rs = "[sample_reading, reading_without_descriptor, reading_serial_denied]"
  let ?ps = "[sample_payload, payload_without_descriptor, payload_serial_denied]"
  let ?bs = "[True, False, True]"
  let ?clock = "\<lambda>i::nat. ''2025-11-15 12:00:00''"
  have each: "\<forall>j<length ?rs. build_payload sample_round2 sample_system sample_location (?clock j) (?rs ! j) = Inr (?ps ! j)
          \<and> insert_into_db (stores_second_fails j) (?ps ! j) = Inr (?bs ! j)"
  proof (intro allI impI)
    fix j assume "j < length ?rs"
    then consider "j = 0" | "j = 1" | "j = 2" by fastforce
    then show "build_payload sample_round2 sample_system sample_location (?clock j) (?rs ! j) = Inr (?ps ! j)
          \<and> insert_into_db (stores_second_fails j) (?ps ! j) = Inr (?bs ! j)"
      by cases (simp_all add: build_sample_payload build_payload_without_descriptor
          build_payload_serial_denied stores_second_fails_def store_ok_inserts
          store_rejects_inserts)
  qed
  from delivery_loop_isolates_failures
         [of ?ps ?rs ?bs sample_round2 sample_system sample_location ?clock stores_second_fails "[]"] each
  show ?thesis
    by (simp add: pass_events_def outcome_entry_def sample_payload_def
        payload_without_descriptor_def payload_serial_denied_def)
qed

section \<open>Facts about the configuration and the run\<close>


lemma check_required_present:
  "check_required path data keys = None \<Longrightarrow> k \<in> set keys \<Longrightarrow> py_contains data k = Inr True"
  by (induction keys) (auto split: sum.splits bool.splits)

lemma py_setitem_object:
  "py_setitem data k v = Inr data' \<Longrightarrow>
     \<exists>kvs. data = JObj kvs \<and> data' = JObj (AList.update k v kvs)"
  by (cases data) (simp_all add: py_setitem_def)

lemma map_of_present: "k \<in> fst ` set kvs \<Longrightarrow> \<exists>v. map_of kvs k = Some v"
  by (cases "map_of kvs k") (simp_all add: map_of_eq_None_iff)

lemma get_location_data_valid:
  assumes "get_location_data pf path cfg = Inr loc"
  shows "\<exists>kvs r u c s. loc = JObj kvs \<and> map_of kvs ''offset_celsius'' = Some (JFloat r)
           \<and> map_of kvs ''ubicacion'' = Some u \<and> map_of kvs ''cpd'' = Some c
           \<and> map_of kvs ''sala'' = Some s"
proof -
  from assms obtain data where parsed: "cfg = Parsed data"
    by (cases cfg) (simp_all add: get_location_data_def)
  from assms parsed have req: "check_required path data required_keys = None"
    by (simp add: get_location_data_def split: option.splits)
  from assms parsed req obtain v r where "py_setitem data ''offset_celsius'' (JFloat r) = Inr loc"
    by (auto simp: get_location_data_def split: sum.splits)
  from py_setitem_object [OF this] obtain kvs0 where
    data: "data = JObj kvs0" and loc: "loc = JObj (AList.update ''offset_celsius'' (JFloat r) kvs0)"
    by blast
  have "\<And>k. k \<in> set required_keys \<Longrightarrow> k \<in> fst ` set kvs0"
    using check_required_present [OF req] data by (simp add: py_contains_def)
  then have "''ubicacion'' \<in> fst ` set kvs0" "''cpd'' \<in> fst ` set kvs0" "''sala'' \<in> fst ` set kvs0"
    by (simp_all add: required_keys_def)
  then obtain u c s where "map_of kvs0 ''ubicacion'' = Some u" "map_of kvs0 ''cpd'' = Some c"
    "map_of kvs0 ''sala'' = Some s"
    using map_of_present by meson
  then show ?thesis using loc by (simp add: update_conv')
qed

lemma build_payload_valid:
  assumes "map_of kvs ''ubicacion'' = Some u" "map_of kvs ''cpd'' = Some c"
    "map_of kvs ''sala'' = Some s"
  shows "build_payload round2 system (JObj kvs) stamp sensor =
     Inr \<lparr>fecha_hora = stamp,
          nombre_sensor = dict_get (metadata sensor) ''product'' (Some ''Desconocido''),
          numero_serie = dict_get (metadata sensor) ''serial_number'' None,
          ubicacion = u,
          hostname_maquina = sys_hostname system,
          ip_maquina = sys_ip_maquina system,
          id_maquina = sys_id_maquina system,
          temperatura = round2 (temperature_c sensor),
          humedad = None, bateria = None, cpd = c, sala = s\<rparr>"
  using assms by (simp add: build_payload_def py_getitem_def Let_def)

lemma build_payload_fields:
  assumes "build_payload round2 system location stamp sensor = Inr p"
  shows "fecha_hora p = stamp"
    and "nombre_sensor p = dict_get (metadata sensor) ''product'' (Some ''Desconocido'')"
    and "numero_serie p = dict_get (metadata sensor) ''serial_number'' None"
    and "py_getitem location ''ubicacion'' = Inr (ubicacion p)"
    and "hostname_maquina p = sys_hostname system"
    and "ip_maquina p = sys_ip_maquina system"
    and "id_maquina p = sys_id_maquina system"
    and "temperatura p = round2 (temperature_c sensor)"
    and "humedad p = None" and "bateria p = None"
    and "py_getitem location ''cpd'' = Inr (cpd p)"
    and "py_getitem location ''sala'' = Inr (sala p)"
  using assms by (auto simp: build_payload_def Let_def split: sum.splits)

text \<open>Every payload that the loop logs or delivers was built from one of its readings.\<close>

lemma delivery_loop_origin:
  "p \<in> set (deliveries (fst (delivery_loop round2 system location clock stores i rs evs)))
     \<union> set (logged_payloads (fst (delivery_loop round2 system location clock stores i rs evs))) \<Longrightarrow>
   p \<in> set (deliveries evs) \<union> set (logged_payloads evs)
   \<or> (\<exists>j r. r \<in> set rs \<and> build_payload round2 system location (clock j) r = Inr p)"
proof (induction rs arbitrary: i evs)
  case Nil
  then show ?case by simp
next
  case (Cons r rs)
  show ?case
  proof (cases "build_payload round2 system location (clock i) r")
    case (Inl e)
    with Cons.prems show ?thesis by simp
  next
    case (Inr q)
    show ?thesis
    proof (cases "insert_into_db (stores i) q")
      case (Inl e)
      with Inr Cons.prems have "p \<in> set (deliveries evs) \<union> set (logged_payloads evs) \<or> p = q"
        by (auto simp: deliveries_append logged_payloads_append)
      with Inr show ?thesis by auto
    next
      case (Inr b)
      with \<open>build_payload round2 system location (clock i) r = Inr q\<close> Cons.prems
      have "p \<in> set (deliveries (fst (delivery_loop round2 system location clock stores (Suc i) rs
                  (evs @ [Log (Info_payload q), Deliver q, Log (outcome_entry q b)]))))
              \<union> set (logged_payloads (fst (delivery_loop round2 system location clock stores (Suc i) rs
                  (evs @ [Log (Info_payload q), Deliver q, Log (outcome_entry q b)]))))"
        by simp
      from Cons.IH [OF this]
      have "p \<in> set (deliveries evs) \<union> set (logged_payloads evs) \<or> p = q
          \<or> (\<exists>j r. r \<in> set rs \<and> build_payload round2 system location (clock j) r = Inr p)"
        by (auto simp: deliveries_append logged_payloads_append outcome_entry_def
            split: if_splits)
      with \<open>build_payload round2 system location (clock i) r = Inr q\<close> show ?thesis by auto
    qed
  qed
qed

lemma main_try_context:
  assumes "get_system_info True (env_host env) = Inr system"
    and "get_location_data (env_float env) (env_config_path env) (env_config_file env) = Inr location"
  shows "\<exists>offset. py_getitem location ''offset_celsius'' = Inr (JFloat offset)
           \<and> main_try env = after_context env system location offset"
proof -
  from get_location_data_valid [OF assms(2)] obtain kvs r where
    "location = JObj kvs" "map_of kvs ''offset_celsius'' = Some (JFloat r)" by blast
  then have "py_getitem location ''offset_celsius'' = Inr (JFloat r)"
    by (simp add: py_getitem_def)
  with assms show ?thesis by (simp add: main_try_def after_context_def)
qed

lemma main_try_no_context:
  assumes "get_system_info True (env_host env) = Inl e
     \<or> get_location_data (env_float env) (env_config_path env) (env_config_file env) = Inl e"
  shows "\<exists>e'. main env = [Log (Error_run e')]"
  using assms by (auto simp: main_def main_try_def split: sum.splits)

lemma main_observed:
  "deliveries (main env) = deliveries (fst (main_try env))"
  "logged_payloads (main env) = logged_payloads (fst (main_try env))"
  "sensor_events (main env) = sensor_events (fst (main_try env))"
  by (auto simp: main_def deliveries_append logged_payloads_append sensor_events_append
      split: prod.splits option.splits)

lemma main_payload_origin:
  assumes "p \<in> set (deliveries (main env)) \<union> set (logged_payloads (main env))"
  shows "\<exists>system location stamp sensor.
           get_system_info True (env_host env) = Inr system
         \<and> get_location_data (env_float env) (env_config_path env) (env_config_file env) = Inr location
         \<and> build_payload (env_round2 env) system location stamp sensor = Inr p"
proof (cases "get_system_info True (env_host env)")
  case (Inl e)
  then have "\<exists>e'. main env = [Log (Error_run e')]" using main_try_no_context by blast
  with assms show ?thesis by auto
next
  case sys: (Inr system)
  show ?thesis
  proof (cases "get_location_data (env_float env) (env_config_path env) (env_config_file env)")
    case (Inl e)
    then have "\<exists>e'. main env = [Log (Error_run e')]" using main_try_no_context by blast
    with assms show ?thesis by auto
  next
    case loc: (Inr location)
    from main_try_context [OF sys loc] obtain offset where
      m: "main_try env = after_context env system location offset" by blast
    obtain io res where g: "get_medicion offset (env_devices env) = (io, res)" by force
    show ?thesis
    proof (cases res)
      case (Inl e)
      with assms m g show ?thesis
        by (simp add: main_observed after_context_def deliveries_map_Sensor logged_payloads_map_Sensor)
    next
      case (Inr mediciones)
      show ?thesis
      proof (cases "mediciones = []")
        case True
        with assms m g Inr show ?thesis
          by (simp add: main_observed after_context_def deliveries_append logged_payloads_append
              deliveries_map_Sensor logged_payloads_map_Sensor)
      next
        case False
        with assms m g Inr have
          "p \<in> set (deliveries (fst (delivery_loop (env_round2 env) system location (env_now env) (env_store env) 0
                  mediciones (map Sensor io))))
             \<union> set (logged_payloads (fst (delivery_loop (env_round2 env) system location (env_now env) (env_store env) 0
                  mediciones (map Sensor io))))"
          by (simp add: main_observed after_context_def)
        from delivery_loop_origin [OF this]
        obtain j r where "build_payload (env_round2 env) system location (env_now env j) r = Inr p"
          by (auto simp: deliveries_map_Sensor logged_payloads_map_Sensor)
        with sys loc show ?thesis by blast
      qed
    qed
  qed
qed

section \<open>Runs of the sample environments\<close>

lemma sample_host_info: "get_system_info True sample_host = Inr sample_system"
  by (simp add: get_system_info_def get_hostname_def get_ip_def get_machine_id_def py_strip_def
      is_space_def sample_host_def sample_system_def)

lemma sample_location_loads:
  "get_location_data sample_float path (Parsed sample_location) = Inr sample_location"
  by (simp add: get_location_data_def required_keys_def py_contains_def py_getitem_def
      py_setitem_def sample_location_def sample_float_def)

lemma sample_context:
  assumes "env_host env = sample_host" "env_config_file env = Parsed sample_location"
    "env_float env = sample_float"
  shows "main_try env = after_context env sample_system sample_location sample_offset"
proof -
  from assms have "get_system_info True (env_host env) = Inr sample_system"
    "get_location_data (env_float env) (env_config_path env) (env_config_file env) = Inr sample_location"
    by (simp_all add: sample_host_info sample_location_loads)
  from main_try_context [OF this] obtain offset where
    "py_getitem sample_location ''offset_celsius'' = Inr (JFloat offset)"
    "main_try env = after_context env sample_system sample_location offset" by blast
  moreover have "py_getitem sample_location ''offset_celsius'' = Inr (JFloat sample_offset)"
    by (simp add: py_getitem_def sample_location_def)
  ultimately show ?thesis by simp
qed

lemma sample_readings:
  "get_medicion sample_offset (Inr [sample_device, device_without_descriptor]) =
     ([Enumerate_devices, Read_descriptor, Read_temperature, Read_descriptor, Read_temperature],
      Inr [sample_reading, reading_without_descriptor])"
  by (simp add: sample_medicion sample_reading_def reading_without_descriptor_def
      sample_offset_def)

lemma sample_reading_alone:
  "get_medicion sample_offset (Inr [sample_device]) =
     ([Enumerate_devices, Read_descriptor, Read_temperature], Inr [sample_reading])"
  by (simp add: get_medicion_def sample_device_metadata sample_device_temperature
      sample_reading_def sample_offset_def)

lemma reading_without_descriptor_alone:
  "get_medicion sample_offset (Inr [device_without_descriptor]) =
     ([Enumerate_devices, Read_descriptor, Read_temperature], Inr [reading_without_descriptor])"
  by (simp add: get_medicion_def device_without_descriptor_metadata
      device_without_descriptor_temperature reading_without_descriptor_def sample_offset_def)

lemma reading_fails:
  "get_medicion off (Inr [sample_device, device_read_fails]) =
     ([Enumerate_devices, Read_descriptor, Read_temperature, Read_descriptor, Read_temperature],
      Inl (USBError ''timeout''))"
proof -
  have "get_device_metadata device_read_fails = Inr sample_metadata"
    using sample_device_metadata
    by (simp add: get_device_metadata_def device_read_fails_def sample_device_def)
  moreover have "get_temperature device_read_fails = Inl (USBError ''timeout'')"
    by (simp add: device_read_fails_def)
  ultimately show ?thesis
    by (simp add: get_medicion_def sample_device_metadata sample_device_temperature)
qed

lemma sample_env_fields:
  "env_host sample_env = sample_host"
  "env_config_path sample_env = ''/opt/temper/config/config.json''"
  "env_config_file sample_env = Parsed sample_location"
  "env_float sample_env = sample_float"
  "env_round2 sample_env = sample_round2"
  "env_devices sample_env = Inr [sample_device]"
  "env_now sample_env i = ''2025-11-15 12:00:00''"
  "env_store sample_env i = store_ok"
  by (simp_all add: sample_env_def)

lemma main_two_devices:
  "main env_two_devices =
     [Sensor Enumerate_devices, Sensor Read_descriptor, Sensor Read_temperature,
      Sensor Read_descriptor, Sensor Read_temperature,
      Log (Info_payload sample_payload), Deliver sample_payload,
      Log (outcome_entry sample_payload True),
      Log (Info_payload payload_without_descriptor), Deliver payload_without_descriptor,
      Log (outcome_entry payload_without_descriptor True)]"
proof -
  have "main_try env_two_devices
      = after_context env_two_devices sample_system sample_location sample_offset"
    by (rule sample_context) (simp_all add: env_two_devices_def sample_env_fields)
  moreover have "env_devices env_two_devices = Inr [sample_device, device_without_descriptor]"
    "env_now env_two_devices = (\<lambda>i. ''2025-11-15 12:00:00'')"
    "env_round2 env_two_devices = sample_round2"
    "env_store env_two_devices = (\<lambda>i. store_ok)"
    by (simp_all add: env_two_devices_def sample_env_def)
  ultimately show ?thesis
    by (simp add: main_def after_context_def sample_readings build_sample_payload
        build_payload_without_descriptor store_ok_inserts)
qed

section \<open>Every record of a run carries the same context\<close>

text \<open>
  C9. Any two records that a run logs or hands to the sink agree on \<^verbatim>\<open>ubicacion\<close>,
  \<^verbatim>\<open>hostname_maquina\<close>, \<^verbatim>\<open>ip_maquina\<close>, \<^verbatim>\<open>id_maquina\<close>, \<^verbatim>\<open>cpd\<close> and \<^verbatim>\<open>sala\<close> (and on the
  null humidity and battery), and these fields are the ones of the host and location
  context loaded at the start of the run; what is left to vary is the timestamp, the sensor
  name, the serial number and the temperature.
\<close>

theorem records_share_context_snapshot:
  "(p \<in> set (deliveries (main env)) \<union> set (logged_payloads (main env))
      \<and> q \<in> set (deliveries (main env)) \<union> set (logged_payloads (main env))
    \<longrightarrow> ubicacion p = ubicacion q \<and> hostname_maquina p = hostname_maquina q
      \<and> ip_maquina p = ip_maquina q \<and> id_maquina p = id_maquina q
      \<and> cpd p = cpd q \<and> sala p = sala q
      \<and> humedad p = humedad q \<and> bateria p = bateria q)
   \<and> (p \<in> set (deliveries (main env)) \<union> set (logged_payloads (main env))
      \<and> get_system_info True (env_host env) = Inr system
      \<and> get_location_data (env_float env) (env_config_path env) (env_config_file env) = Inr location
    \<longrightarrow> hostname_maquina p = sys_hostname system
      \<and> ip_maquina p = sys_ip_maquina system
      \<and> id_maquina p = sys_id_maquina system
      \<and> py_getitem location ''ubicacion'' = Inr (ubicacion p)
      \<and> py_getitem location ''cpd'' = Inr (cpd p)
      \<and> py_getitem location ''sala'' = Inr (sala p))"
proof (intro conjI impI)
  assume h: "p \<in> set (deliveries (main env)) \<union> set (logged_payloads (main env))
      \<and> q \<in> set (deliveries (main env)) \<union> set (logged_payloads (main env))"
  from h main_payload_origin [of p env] obtain system location stamp sensor where
    sys: "get_system_info True (env_host env) = Inr system"
    and loc: "get_location_data (env_float env) (env_config_path env) (env_config_file env) = Inr location"
    and p: "build_payload (env_round2 env) system location stamp sensor = Inr p" by blast
  from h main_payload_origin [of q env] sys loc obtain stamp' sensor' where
    q: "build_payload (env_round2 env) system location stamp' sensor' = Inr q" by auto
  from build_payload_fields [OF p] build_payload_fields [OF q]
  show "ubicacion p = ubicacion q" "hostname_maquina p = hostname_maquina q"
    "ip_maquina p = ip_maquina q" "id_maquina p = id_maquina q"
    "cpd p = cpd q" "sala p = sala q" "humedad p = humedad q" "bateria p = bateria q"
    by simp_all
next
  assume h: "p \<in> set (deliveries (main env)) \<union> set (logged_payloads (main env))
      \<and> get_system_info True (env_host env) = Inr system
      \<and> get_location_data (env_float env) (env_config_path env) (env_config_file env) = Inr location"
  from h main_payload_origin [of p env] obtain stamp sensor where
    p: "build_payload (env_round2 env) system location stamp sensor = Inr p" by auto
  from build_payload_fields [OF p]
  show "hostname_maquina p = sys_hostname system" "ip_maquina p = sys_ip_maquina system"
    "id_maquina p = sys_id_maquina system"
    "py_getitem location ''ubicacion'' = Inr (ubicacion p)"
    "py_getitem location ''cpd'' = Inr (cpd p)"
    "py_getitem location ''sala'' = Inr (sala p)"
    by simp_all
qed

theorem records_share_context_snapshot_witness:
  "sample_payload \<in> set (deliveries (main env_two_devices))
   \<and> payload_without_descriptor \<in> set (deliveries (main env_two_devices))
   \<and> get_system_info True (env_host env_two_devices) = Inr sample_system
   \<and> get_location_data (env_float env_two_devices) (env_config_path env_two_devices)
        (env_config_file env_two_devices) = Inr sample_location
   \<and> ubicacion sample_payload = ubicacion payload_without_descriptor
   \<and> hostname_maquina sample_payload = hostname_maquina payload_without_descriptor
   \<and> ip_maquina sample_payload = ip_maquina payload_without_descriptor
   \<and> id_maquina sample_payload = id_maquina payload_without_descriptor
   \<and> cpd sample_payload = cpd payload_without_descriptor
   \<and> sala sample_payload = sala payload_without_descriptor
   \<and> hostname_maquina sample_payload = sys_hostname sample_system
   \<and> py_getitem sample_location ''ubicacion'' = Inr (ubicacion sample_payload)"
proof -
  have d: "deliveries (main env_two_devices) = [sample_payload, payload_without_descriptor]"
    by (simp add: main_two_devices)
  have s: "get_system_info True (env_host env_two_devices) = Inr sample_system"
    by (simp add: env_two_devices_def sample_env_fields sample_host_info)
  have l: "get_location_data (env_float env_two_devices) (env_config_path env_two_devices)
        (env_config_file env_two_devices) = Inr sample_location"
    by (simp add: env_two_devices_def sample_env_fields sample_location_loads)
  have m1: "sample_payload \<in> set (deliveries (main env_two_devices))
                \<union> set (logged_payloads (main env_two_devices))"
    and m2: "payload_without_descriptor \<in> set (deliveries (main env_two_devices))
                \<union> set (logged_payloads (main env_two_devices))"
    and e1: "sample_payload \<in> set (deliveries (main env_two_devices))"
    and e2: "payload_without_descriptor \<in> set (deliveries (main env_two_devices))"
    by (simp_all add: d)
  from records_share_context_snapshot
         [of sample_payload env_two_devices payload_without_descriptor sample_system sample_location]
       m1 m2 s l
  have "ubicacion sample_payload = ubicacion payload_without_descriptor
   \<and> hostname_maquina sample_payload = hostname_maquina payload_without_descriptor
   \<and> ip_maquina sample_payload = ip_maquina payload_without_descriptor
   \<and> id_maquina sample_payload = id_maquina payload_without_descriptor
   \<and> cpd sample_payload = cpd payload_without_descriptor
   \<and> sala sample_payload = sala payload_without_descriptor
   \<and> hostname_maquina sample_payload = sys_hostname sample_system
   \<and> py_getitem sample_location ''ubicacion'' = Inr (ubicacion sample_payload)"
    by blast
  with e1 e2 s l show ?thesis by blast
qed

section \<open>Acquisition is all or nothing\<close>

lemma medicion_loop_fails:
  "d \<in> set devs \<Longrightarrow> isl (get_temperature d) \<Longrightarrow> isl (snd (medicion_loop off devs acc io))"
proof (induction devs arbitrary: acc io)
  case Nil
  then show ?case by simp
next
  case (Cons x xs)
  show ?case
  proof (cases "get_device_metadata x")
    case (Inl e)
    then show ?thesis by simp
  next
    case md: (Inr m)
    show ?thesis
    proof (cases "get_temperature x")
      case (Inl e)
      with md show ?thesis by simp
    next
      case (Inr t)
      with Cons.prems have "d \<in> set xs" by auto
      from Cons.IH [OF this Cons.prems(2)] md Inr show ?thesis by simp
    qed
  qed
qed

lemma medicion_loop_first_failure:
  "i < length devs \<Longrightarrow> get_temperature (devs ! i) = Inl e \<Longrightarrow>
   (\<forall>j<i. readable (devs ! j)) \<Longrightarrow> \<not> isl (get_device_metadata (devs ! i)) \<Longrightarrow>
   snd (medicion_loop off devs acc io) = Inl e"
proof (induction devs arbitrary: i acc io)
  case Nil
  then show ?case by simp
next
  case (Cons x xs)
  show ?case
  proof (cases i)
    case 0
    with Cons.prems show ?thesis by (cases "get_device_metadata x") simp_all
  next
    case (Suc k)
    from Cons.prems(3) Suc have "readable x" by fastforce
    then obtain m t where x: "get_device_metadata x = Inr m" "get_temperature x = Inr t"
      by (cases "get_device_metadata x"; cases "get_temperature x") (simp_all add: readable_def)
    from Cons.prems Suc have "k < length xs" "get_temperature (xs ! k) = Inl e" by simp_all
    moreover from Cons.prems(3) Suc have "\<forall>j<k. readable (xs ! j)" by fastforce
    moreover from Cons.prems Suc have "\<not> isl (get_device_metadata (xs ! k))" by simp
    ultimately have "snd (medicion_loop off xs (acc @ [\<lparr>metadata = m, temperature_c = t + off\<rparr>])
        (io @ [Read_descriptor, Read_temperature])) = Inl e"
      by (rule Cons.IH)
    with x show ?thesis by simp
  qed
qed

lemma main_acquisition_fails:
  assumes "\<And>off. isl (snd (get_medicion off (env_devices env)))"
  shows "deliveries (main env) = [] \<and> logged_payloads (main env) = []
         \<and> (\<exists>evs e'. main env = evs @ [Log (Error_run e')])"
proof (cases "get_system_info True (env_host env)")
  case (Inl e)
  then have "\<exists>e'. main env = [Log (Error_run e')]" using main_try_no_context by blast
  then show ?thesis by auto
next
  case sys: (Inr system)
  show ?thesis
  proof (cases "get_location_data (env_float env) (env_config_path env) (env_config_file env)")
    case (Inl e)
    then have "\<exists>e'. main env = [Log (Error_run e')]" using main_try_no_context by blast
    then show ?thesis by auto
  next
    case loc: (Inr location)
    from main_try_context [OF sys loc] obtain offset where
      m: "main_try env = after_context env system location offset" by blast
    obtain io res where g: "get_medicion offset (env_devices env) = (io, res)" by force
    with assms [of offset] obtain e where "res = Inl e" by (cases res) simp_all
    with m g have "main env = map Sensor io @ [Log (Error_run e)]"
      by (simp add: main_def after_context_def)
    then show ?thesis
      by (simp add: deliveries_append logged_payloads_append deliveries_map_Sensor
          logged_payloads_map_Sensor)
  qed
qed

text \<open>
  C10. If the temperature read of an enumerated device raises, \<^verbatim>\<open>get_medicion\<close> returns no
  readings: it raises, and what it raises is the exception of the first such device when
  the devices before it are readable and its own metadata is extracted. A run over these
  devices logs no record and hands none to the sink, whatever the earlier devices would
  have given; it ends with the line of the outermost handler.
\<close>

theorem acquisition_is_all_or_nothing:
  "(i < length devs \<and> get_temperature (devs ! i) = Inl e
      \<and> (\<forall>j<i. readable (devs ! j)) \<and> \<not> isl (get_device_metadata (devs ! i))
    \<longrightarrow> snd (get_medicion off (Inr devs)) = Inl e)
   \<and> (d \<in> set devs \<and> isl (get_temperature d)
    \<longrightarrow> isl (snd (get_medicion off (Inr devs)))
      \<and> (env_devices env = Inr devs
          \<longrightarrow> deliveries (main env) = [] \<and> logged_payloads (main env) = []
            \<and> (\<exists>evs e'. main env = evs @ [Log (Error_run e')])))"
proof (intro conjI impI)
  assume "i < length devs \<and> get_temperature (devs ! i) = Inl e
      \<and> (\<forall>j<i. readable (devs ! j)) \<and> \<not> isl (get_device_metadata (devs ! i))"
  then show "snd (get_medicion off (Inr devs)) = Inl e"
    using medicion_loop_first_failure [of i devs e off "[]" "[Enumerate_devices]"]
    by (simp add: get_medicion_def)
next
  assume h: "d \<in> set devs \<and> isl (get_temperature d)"
  then have "\<And>off acc io. isl (snd (medicion_loop off devs acc io))"
    using medicion_loop_fails by blast
  then have all: "\<And>off. isl (snd (get_medicion off (Inr devs)))"
    by (simp add: get_medicion_def)
  then show "isl (snd (get_medicion off (Inr devs)))" .
  assume "env_devices env = Inr devs"
  with all have "\<And>off. isl (snd (get_medicion off (env_devices env)))" by simp
  from main_acquisition_fails [OF this]
  show "deliveries (main env) = []" "logged_payloads (main env) = []"
    "\<exists>evs e'. main env = evs @ [Log (Error_run e')]" by simp_all
qed

lemma main_read_fails:
  "main env_read_fails =
     [Sensor Enumerate_devices, Sensor Read_descriptor, Sensor Read_temperature,
      Sensor Read_descriptor, Sensor Read_temperature, Log (Error_run (USBError ''timeout''))]"
proof -
  have "main_try env_read_fails
      = after_context env_read_fails sample_system sample_location sample_offset"
    by (rule sample_context) (simp_all add: env_read_fails_def sample_env_fields)
  moreover have "env_devices env_read_fails = Inr [sample_device, device_read_fails]"
    by (simp add: env_read_fails_def)
  ultimately show ?thesis
    by (simp add: main_def after_context_def reading_fails)
qed

theorem acquisition_is_all_or_nothing_witness:
  "get_temperature ([sample_device, device_read_fails] ! 1) = Inl (USBError ''timeout'')
   \<and> readable sample_device
   \<and> snd (get_medicion sample_offset (Inr [sample_device, device_read_fails]))
       = Inl (USBError ''timeout'')
   \<and> env_devices env_read_fails = Inr [sample_device, device_read_fails]
   \<and> deliveries (main env_read_fails) = []
   \<and> logged_payloads (main env_read_fails) = []
   \<and> main env_read_fails =
       [Sensor Enumerate_devices, Sensor Read_descriptor, Sensor Read_temperature,
        Sensor Read_descriptor, Sensor Read_temperature, Log (Error_run (USBError ''timeout''))]"
proof -
  let ?devs = "[sample_device, device_read_fails]"
  have a: "(1::nat) < length ?devs" by simp
  have b: "get_temperature (?devs ! 1) = Inl (USBError ''timeout'')"
    by (simp add: device_read_fails_def)
  have r: "readable sample_device"
    by (simp add: readable_def sample_device_metadata sample_device_temperature)
  then have c: "\<forall>j<(1::nat). readable (?devs ! j)" by simp
  have d: "\<not> isl (get_device_metadata (?devs ! 1))"
    using sample_device_metadata
    by (simp add: get_device_metadata_def device_read_fails_def sample_device_def)
  have e: "device_read_fails \<in> set ?devs \<and> isl (get_temperature device_read_fails)"
    by (simp add: device_read_fails_def)
  have f: "env_devices env_read_fails = Inr ?devs" by (simp add: env_read_fails_def)
  from acquisition_is_all_or_nothing
         [of 1 ?devs "USBError ''timeout''" sample_offset device_read_fails env_read_fails]
       a b c d e f
  have "snd (get_medicion sample_offset (Inr ?devs)) = Inl (USBError ''timeout'')
      \<and> deliveries (main env_read_fails) = [] \<and> logged_payloads (main env_read_fails) = []"
    by blast
  with b r f main_read_fails show ?thesis by blast
qed

section \<open>An invalid location configuration ends the run before acquisition\<close>



section \<open>Missing credentials end the run at the first delivery\<close>

lemma insert_without_credentials:
  "load_credentials st = Inl e \<Longrightarrow> insert_into_db st p = Inl e"
  by (simp add: insert_into_db_def get_db_connection_def)

text \<open>
  C8, as amended. When the credentials cannot be loaded, the run is ended by its first
  delivery: the devices have been enumerated and read, the first record is logged and
  handed to the sink, the exception of \<^verbatim>\<open>load_credentials\<close> is logged by the outermost
  handler, and no further reading is processed. A run that acquires no reading never
  loads the credentials and ends with the warning of an empty acquisition.
\<close>

theorem missing_credentials_abort_first_delivery:
  "(get_system_info True (env_host env) = Inr system
      \<and> get_location_data (env_float env) (env_config_path env) (env_config_file env) = Inr location
      \<and> py_getitem location ''offset_celsius'' = Inr (JFloat offset)
      \<and> get_medicion offset (env_devices env) = (io, Inr (r # rs))
      \<and> load_credentials (env_store env 0) = Inl e
    \<longrightarrow> (\<exists>p. build_payload (env_round2 env) system location (env_now env 0) r = Inr p
          \<and> main env = map Sensor io @ [Log (Info_payload p), Deliver p, Log (Error_run e)]))
   \<and> (get_system_info True (env_host env) = Inr system
      \<and> get_location_data (env_float env) (env_config_path env) (env_config_file env) = Inr location
      \<and> py_getitem location ''offset_celsius'' = Inr (JFloat offset)
      \<and> get_medicion offset (env_devices env) = (io, Inr [])
    \<longrightarrow> main env = map Sensor io @ [Log Warning_no_sensors])"
proof (intro conjI impI)
  assume h: "get_system_info True (env_host env) = Inr system
      \<and> get_location_data (env_float env) (env_config_path env) (env_config_file env) = Inr location
      \<and> py_getitem location ''offset_celsius'' = Inr (JFloat offset)
      \<and> get_medicion offset (env_devices env) = (io, Inr (r # rs))
      \<and> load_credentials (env_store env 0) = Inl e"
  then have m: "main_try env = after_context env system location offset"
    using main_try_context [of env system location] by auto
  from h get_location_data_valid [of "env_float env" "env_config_path env" "env_config_file env" location]
  obtain kvs u c s where "location = JObj kvs" "map_of kvs ''ubicacion'' = Some u"
    "map_of kvs ''cpd'' = Some c" "map_of kvs ''sala'' = Some s" by blast
  then obtain p where p: "build_payload (env_round2 env) system location (env_now env 0) r = Inr p"
    using build_payload_valid [of kvs u c s "env_round2 env" system "env_now env 0" r] by simp
  from h have "insert_into_db (env_store env 0) p = Inl e"
    using insert_without_credentials by blast
  with m h p have "main env = map Sensor io @ [Log (Info_payload p), Deliver p, Log (Error_run e)]"
    by (simp add: main_def after_context_def)
  with p show "\<exists>p. build_payload (env_round2 env) system location (env_now env 0) r = Inr p
          \<and> main env = map Sensor io @ [Log (Info_payload p), Deliver p, Log (Error_run e)]"
    by blast
next
  assume h: "get_system_info True (env_host env) = Inr system
      \<and> get_location_data (env_float env) (env_config_path env) (env_config_file env) = Inr location
      \<and> py_getitem location ''offset_celsius'' = Inr (JFloat offset)
      \<and> get_medicion offset (env_devices env) = (io, Inr [])"
  then have m: "main_try env = after_context env system location offset"
    using main_try_context [of env system location] by auto
  with h show "main env = map Sensor io @ [Log Warning_no_sensors]"
    by (simp add: main_def after_context_def)
qed

lemma main_without_credentials:
  "main env_without_credentials =
     [Sensor Enumerate_devices, Sensor Read_descriptor, Sensor Read_temperature,
      Log (Info_payload sample_payload), Deliver sample_payload,
      Log (Error_run (FileNotFoundError ''/opt/temper/config/credenciales.json''))]"
proof -
  have "main_try env_without_credentials
      = after_context env_without_credentials sample_system sample_location sample_offset"
    by (rule sample_context) (simp_all add: env_without_credentials_def sample_env_fields)
  moreover have "env_devices env_without_credentials = Inr [sample_device]"
    "env_now env_without_credentials = (\<lambda>i. ''2025-11-15 12:00:00'')"
    "env_round2 env_without_credentials = sample_round2"
    "env_store env_without_credentials = (\<lambda>i. store_without_credentials)"
    by (simp_all add: env_without_credentials_def sample_env_def)
  moreover have "insert_into_db store_without_credentials sample_payload
      = Inl (FileNotFoundError ''/opt/temper/config/credenciales.json'')"
    by (rule insert_without_credentials)
       (simp add: load_credentials_def store_without_credentials_def store_ok_def)
  ultimately show ?thesis
    by (simp add: main_def after_context_def sample_reading_alone build_sample_payload)
qed

text \<open>
  C8 as stated fails: without the credentials file the run still enumerates the devices
  and reads a temperature, and only the first delivery raises.
\<close>

theorem missing_credentials_counterexample:
  "sensor_events (main env_without_credentials)
     = [Enumerate_devices, Read_descriptor, Read_temperature]
   \<and> deliveries (main env_without_credentials) = [sample_payload]
   \<and> last (main env_without_credentials)
       = Log (Error_run (FileNotFoundError ''/opt/temper/config/credenciales.json''))"
  by (simp add: main_without_credentials)

theorem missing_credentials_abort_first_delivery_witness:
  "get_system_info True (env_host env_without_credentials) = Inr sample_system
   \<and> get_location_data (env_float env_without_credentials)
        (env_config_path env_without_credentials) (env_config_file env_without_credentials)
       = Inr sample_location
   \<and> py_getitem sample_location ''offset_celsius'' = Inr (JFloat sample_offset)
   \<and> get_medicion sample_offset (env_devices env_without_credentials)
       = ([Enumerate_devices, Read_descriptor, Read_temperature], Inr [sample_reading])
   \<and> load_credentials (env_store env_without_credentials 0)
       = Inl (FileNotFoundError ''/opt/temper/config/credenciales.json'')
   \<and> main env_without_credentials =
       map Sensor [Enumerate_devices, Read_descriptor, Read_temperature]
         @ [Log (Info_payload sample_payload), Deliver sample_payload,
            Log (Error_run (FileNotFoundError ''/opt/temper/config/credenciales.json''))]"
proof -
  have a: "get_system_info True (env_host env_without_credentials) = Inr sample_system"
    by (simp add: env_without_credentials_def sample_env_fields sample_host_info)
  have b: "get_location_data (env_float env_without_credentials)
        (env_config_path env_without_credentials) (env_config_file env_without_credentials)
       = Inr sample_location"
    by (simp add: env_without_credentials_def sample_env_fields sample_location_loads)
  have c: "py_getitem sample_location ''offset_celsius'' = Inr (JFloat sample_offset)"
    by (simp add: py_getitem_def sample_location_def)
  have d: "get_medicion sample_offset (env_devices env_without_credentials)
       = ([Enumerate_devices, Read_descriptor, Read_temperature], Inr [sample_reading])"
    by (simp add: env_without_credentials_def sample_env_fields sample_reading_alone)
  have e: "load_credentials (env_store env_without_credentials 0)
       = Inl (FileNotFoundError ''/opt/temper/config/credenciales.json'')"
    by (simp add: env_without_credentials_def load_credentials_def
        store_without_credentials_def store_ok_def)
  have n: "env_now env_without_credentials 0 = ''2025-11-15 12:00:00''"
    "env_round2 env_without_credentials = sample_round2"
    by (simp_all add: env_without_credentials_def sample_env_fields)
  from missing_credentials_abort_first_delivery
         [of env_without_credentials sample_system sample_location sample_offset
             "[Enumerate_devices, Read_descriptor, Read_temperature]" sample_reading "[]"
             "FileNotFoundError ''/opt/temper/config/credenciales.json''"]
       a b c d e
  obtain p where "build_payload (env_round2 env_without_credentials) sample_system sample_location
                    (env_now env_without_credentials 0) sample_reading = Inr p"
    and m: "main env_without_credentials =
       map Sensor [Enumerate_devices, Read_descriptor, Read_temperature]
         @ [Log (Info_payload p), Deliver p,
            Log (Error_run (FileNotFoundError ''/opt/temper/config/credenciales.json''))]"
    by blast
  with n have "p = sample_payload" by (simp add: build_sample_payload)
  with m a b c d e show ?thesis by blast
qed

section \<open>The sensor name of a device without product string\<close>

lemma main_absent_product:
  "main env_absent_product =
     [Sensor Enumerate_devices, Sensor Read_descriptor, Sensor Read_temperature,
      Log (Info_payload payload_without_descriptor), Deliver payload_without_descriptor,
      Log (Info_inserted None 21.16)]"
proof -
  have "main_try env_absent_product
      = after_context env_absent_product sample_system sample_location sample_offset"
    by (rule sample_context) (simp_all add: env_absent_product_def sample_env_fields)
  moreover have "env_devices env_absent_product = Inr [device_without_descriptor]"
    "env_now env_absent_product = (\<lambda>i. ''2025-11-15 12:00:00'')"
    "env_round2 env_absent_product = sample_round2"
    "env_store env_absent_product = (\<lambda>i. store_ok)"
    by (simp_all add: env_absent_product_def sample_env_def)
  ultimately show ?thesis
    by (simp add: main_def after_context_def reading_without_descriptor_alone
        build_payload_without_descriptor store_ok_inserts outcome_entry_def
        payload_without_descriptor_def)
qed

text \<open>
  C4 on the code. \<^verbatim>\<open>get_device_metadata\<close> always sets the key \<^verbatim>\<open>product\<close>, to \<^verbatim>\<open>None\<close>
  when the product is absent, so the default of \<^verbatim>\<open>metadata.get("product", "Desconocido")\<close>
  never applies: for the device without descriptor the record handed to the sink has a
  null sensor name, not \<^verbatim>\<open>'Desconocido'\<close>.
\<close>

theorem sensor_name_null_for_absent_product:
  "get_device_metadata device_without_descriptor = Inr absent_descriptor_metadata
   \<and> absent_descriptor_metadata ''product'' = Some None
   \<and> deliveries (main env_absent_product) = [payload_without_descriptor]
   \<and> nombre_sensor payload_without_descriptor = None
   \<and> map nombre_sensor (deliveries (main env_absent_product)) \<noteq> [Some ''Desconocido'']"
  by (simp add: main_absent_product device_without_descriptor_metadata
      absent_descriptor_metadata_def payload_without_descriptor_def)


end
